theory Spec2Isabelle
  imports
    Complex_Main
    "HOL-Library.Multiset"
    "HOL-Library.Sublist"
    "HOL-Library.Char_ord"
    "HOL-Library.List_Lexorder"
begin

section \<open>Python values, errors and dictionaries\<close>

text \<open>
  The configuration trees of gale hold dynamically typed values. Floats are idealised
  as reals. A \<open>dict\<close> is an association list in insertion order whose keys are distinct.
\<close>

datatype pyval =
    VNone
  | VBool bool
  | VInt int
  | VFloat real
  | VStr string
  | VList "pyval list"

datatype error =
    ValueError
  | TypeError
  | ZeroDivisionError
  | KeyError
  | AssertionError
  | AttributeError
  | IndexError
  | RuntimeError

type_synonym dict = "(string \<times> pyval) list"

text \<open>\<open>d[k] = v\<close>: an existing key keeps its position, a new key is appended.\<close>

fun dict_set :: "('k \<times> 'v) list \<Rightarrow> 'k \<Rightarrow> 'v \<Rightarrow> ('k \<times> 'v) list" where
  "dict_set [] k v = [(k, v)]"
| "dict_set ((k', v') # d) k v =
     (if k' = k then (k, v) # d else (k', v') # dict_set d k v)"

text \<open>\<open>x == n\<close> for an integer literal \<open>n\<close>: numbers compare by value across types.\<close>

fun py_eq_int :: "pyval \<Rightarrow> int \<Rightarrow> bool" where
  "py_eq_int (VInt i) n = (i = n)"
| "py_eq_int (VFloat r) n = (r = of_int n)"
| "py_eq_int (VBool b) n = ((if b then 1 else 0) = n)"
| "py_eq_int _ n = False"

fun is_list :: "pyval \<Rightarrow> bool" where
  "is_list (VList _) = True"
| "is_list _ = False"

text \<open>\<open>int(x)\<close> on a float truncates towards zero.\<close>

definition py_int :: "real \<Rightarrow> int" where
  "py_int r = (if 0 \<le> r then \<lfloor>r\<rfloor> else \<lceil>r\<rceil>)"

text \<open>\<open>str(n)\<close> of an integer: decimal digits, a leading minus sign when negative.\<close>

fun str_nat :: "nat \<Rightarrow> string" where
  "str_nat n =
     (if n < 10 then [''0123456789'' ! n]
      else str_nat (n div 10) @ [''0123456789'' ! (n mod 10)])"

declare str_nat.simps [simp del]

definition str_int :: "int \<Rightarrow> string" where
  "str_int i = (if i < 0 then CHR ''-'' # str_nat (nat (- i)) else str_nat (nat i))"

section \<open>The task base: \<open>gale/core_classes.py\<close>\<close>

subsection \<open>The external trainer and the optimization config\<close>

datatype limit = LimitInt int | LimitFloat real

record trainer =
  max_epochs :: "int option"
  max_steps :: "int option"
  limit_train_batches :: limit
  accumulate_grad_batches :: int
  num_gpus :: int
  num_processes :: int
  tpu_cores :: "int option"

record optimizer_conf =
  opt_name :: "string option"
  opt_init_args :: dict

record scheduler_conf =
  sch_name :: "string option"
  sch_init_args :: dict
  interval :: string
  monitor :: "string option"

record opt_conf =
  conf_steps_per_epoch :: int
  conf_max_steps :: int
  conf_max_epochs :: int
  optimizer :: optimizer_conf
  scheduler :: scheduler_conf

subsection \<open>Constructed objects and the registries\<close>

text \<open>
  An optimizer or scheduler object is identified by its class name and the arguments its
  constructor stored. \<open>OPTIM_REGISTRY\<close> and \<open>SCHEDULER_REGISTRY\<close> live in modules outside
  the translated sources, so they are parameters: a table from a name to a constructor,
  which may raise.
\<close>

type_synonym params = "nat list"

datatype optim = Optim (optim_class: string) (optim_params: params) (optim_kwargs: dict)

datatype sched =
  Sched (sched_class: string) (sched_optimizer: "optim option") (sched_kwargs: dict)

type_synonym optim_registry = "string \<Rightarrow> (params \<Rightarrow> dict \<Rightarrow> error + optim) option"

type_synonym sched_registry = "string \<Rightarrow> (optim option \<Rightarrow> dict \<Rightarrow> error + sched) option"

record lr_dict =
  ld_scheduler :: sched
  ld_interval :: string
  ld_monitor :: "string option"

subsection \<open>The task state\<close>

datatype level = DEBUG | INFO | WARNING

text \<open>An attribute that starts as fastcore's \<open>noop\<close> and later holds \<open>None\<close> or an object.\<close>

datatype 'a slot = Noop | Value "'a option"

text \<open>
  \<open>train_dl\<close> is \<open>len(self._train_dl)\<close> once a loader is set, \<open>hypers_lr\<close> is
  \<open>self._model.hypers.lr\<close> once a model is set, \<open>cfg_optimization\<close> the
  \<open>optimization\<close> namespace of \<open>self._cfg\<close>, \<open>param_dicts\<close> the trainable parameters,
  and \<open>task_log\<close> the calls made to \<open>log_main_process\<close>, oldest first.
\<close>

record task =
  task_trainer :: trainer
  train_dl :: "nat option"
  hypers_lr :: "pyval option"
  cfg_optimization :: "opt_conf option"
  param_dicts :: params
  task_optimizer :: "optim slot"
  task_scheduler :: "lr_dict slot"
  task_log :: "(level \<times> string) list"

definition log_main_process :: "level \<Rightarrow> string \<Rightarrow> task \<Rightarrow> task" where
  "log_main_process lvl msg t = t\<lparr>task_log := task_log t @ [(lvl, msg)]\<rparr>"

subsection \<open>\<open>DefaultTask.num_training_steps\<close>\<close>

text \<open>
  The method returns a bare integer on one path and a pair on the other; both shapes are
  kept. Multiplying by a \<open>max_epochs\<close> of \<open>None\<close> is Python's \<open>TypeError\<close>. The product
  \<open>len(train_dl) * limit_train_batches\<close> is taken exactly before \<open>int\<close> truncates it:
  the rounding of the product in double precision is not modelled.
\<close>

datatype steps_result = Single int | Pair int int

definition dataset_size_of :: "task \<Rightarrow> error + int" where
  "dataset_size_of t =
     (case limit_train_batches (task_trainer t) of
        LimitInt n \<Rightarrow>
          if n \<noteq> 0 then Inr n
          else (case train_dl t of None \<Rightarrow> Inl TypeError | Some l \<Rightarrow> Inr (int l))
      | LimitFloat f \<Rightarrow>
          (case train_dl t of
             None \<Rightarrow> Inl TypeError
           | Some l \<Rightarrow> Inr (py_int (real l * f))))"

definition num_devices_of :: "trainer \<Rightarrow> int" where
  "num_devices_of tr =
     (let num_devices = max (max 1 (num_gpus tr)) (num_processes tr)
      in case tpu_cores tr of
           None \<Rightarrow> num_devices
         | Some c \<Rightarrow> if c \<noteq> 0 then max num_devices c else num_devices)"

definition num_training_steps :: "task \<Rightarrow> error + steps_result" where
  "num_training_steps t =
     (case dataset_size_of t of
        Inl e \<Rightarrow> Inl e
      | Inr dataset_size \<Rightarrow>
          (let tr = task_trainer t;
               effective_batch_size = accumulate_grad_batches tr * num_devices_of tr
           in if effective_batch_size = 0 then Inl ZeroDivisionError
              else
                (case max_epochs tr of
                   None \<Rightarrow> Inl TypeError
                 | Some me \<Rightarrow>
                     (let max_estimated_steps = (dataset_size div effective_batch_size) * me
                      in case max_steps tr of
                           None \<Rightarrow> Inr (Pair max_estimated_steps dataset_size)
                         | Some ms \<Rightarrow>
                             if ms \<noteq> 0 \<and> ms < max_estimated_steps then Inr (Single ms)
                             else Inr (Pair max_estimated_steps dataset_size)))))"

subsection \<open>\<open>DefaultTask.process_optim_config\<close>\<close>

text \<open>One of the four \<open>if key in sched_config: if sched_config[key] == -1\<close> blocks.\<close>

definition fill_sentinel :: "dict \<Rightarrow> string \<Rightarrow> int \<Rightarrow> dict \<times> task \<Rightarrow> dict \<times> task" where
  "fill_sentinel sched_config key v st =
     (case map_of sched_config key of
        None \<Rightarrow> st
      | Some x \<Rightarrow>
          if py_eq_int x (- 1)
          then (dict_set (fst st) key (VInt v),
                log_main_process DEBUG
                  (''Set the value of '' @ [CHR 0x27] @ key @ [CHR 0x27] @ '' to be ''
                     @ str_int v @ ''.'') (snd st))
          else st)"

definition process_optim_config :: "task \<Rightarrow> opt_conf \<Rightarrow> (error + opt_conf) \<times> task" where
  "process_optim_config t opt_conf =
     (if max_epochs (task_trainer t) = None \<and> max_steps (task_trainer t) = None
      then (Inl ValueError, t)
      else
        (case num_training_steps t of
           Inl e \<Rightarrow> (Inl e, t)
         | Inr (Single n) \<Rightarrow> (Inl TypeError, t)
         | Inr (Pair max_steps' steps) \<Rightarrow>
             if steps = 0 then (Inl ZeroDivisionError, t)
             else
               (let max_epochs' =
                      (case max_epochs (task_trainer t) of
                         None \<Rightarrow> max_steps' div steps
                       | Some e \<Rightarrow> e);
                    c1 = (if conf_steps_per_epoch opt_conf < 1
                          then opt_conf\<lparr>conf_steps_per_epoch := steps\<rparr> else opt_conf);
                    c2 = (if conf_max_steps c1 < 1
                          then c1\<lparr>conf_max_steps := max_steps'\<rparr> else c1);
                    c3 = (if conf_max_epochs c2 < 1
                          then c2\<lparr>conf_max_epochs := max_epochs'\<rparr> else c2);
                    sched_config = sch_init_args (scheduler c3);
                    st1 = fill_sentinel sched_config ''max_iters'' max_steps' (sched_config, t);
                    st2 = fill_sentinel sched_config ''epochs'' max_epochs' st1;
                    st3 = fill_sentinel sched_config ''steps_per_epoch'' steps st2;
                    st4 = fill_sentinel sched_config ''max_steps'' max_steps' st3
                in (Inr (c3\<lparr>scheduler := (scheduler c3)\<lparr>sch_init_args := fst st4\<rparr>\<rparr>),
                    snd st4))))"

subsection \<open>\<open>build_optimizer\<close>, \<open>build_lr_scheduler\<close>, \<open>setup_optimization\<close>\<close>

text \<open>
  Modelled from the spec: the \<open>Registry\<close> class (\<open>gale/utils/structures.py\<close>) is not among
  the sources; a registry is a name-keyed table with exact-match lookup, and looking up a
  name it does not hold raises at once (here \<open>KeyError\<close>).
\<close>

definition registry_get :: "(string \<Rightarrow> 'c option) \<Rightarrow> string \<Rightarrow> error + 'c" where
  "registry_get reg n = (case reg n of None \<Rightarrow> Inl KeyError | Some c \<Rightarrow> Inr c)"

definition build_optimizer ::
  "optim_registry \<Rightarrow> opt_conf \<Rightarrow> params \<Rightarrow> task \<Rightarrow> (error + optim option) \<times> task" where
  "build_optimizer oreg opt_conf ps t =
     (case opt_name (optimizer opt_conf) of
        None \<Rightarrow>
          (Inr None,
           log_main_process WARNING
             ''Optimizer is None, therefore no optimizer will be created.'' t)
      | Some n \<Rightarrow>
          (case registry_get oreg n of
             Inl e \<Rightarrow> (Inl e, t)
           | Inr ctor \<Rightarrow>
               (case ctor ps (opt_init_args (optimizer opt_conf)) of
                  Inl e \<Rightarrow> (Inl e, t)
                | Inr opt \<Rightarrow>
                    (Inr (Some opt),
                     log_main_process DEBUG (''Created optimizer: '' @ optim_class opt) t))))"

text \<open>The loop of \<open>build_lr_scheduler\<close> over \<open>d_args.items()\<close>, filling \<open>kwds\<close>.\<close>

fun scheduler_kwds :: "pyval \<Rightarrow> dict \<Rightarrow> dict \<Rightarrow> dict" where
  "scheduler_kwds max_lrs [] kwds = kwds"
| "scheduler_kwds max_lrs ((key, v) # items) kwds =
     scheduler_kwds max_lrs items
       (if is_list v then dict_set kwds key v
        else if key = ''max_lr'' then dict_set kwds ''max_lr'' max_lrs
        else dict_set kwds key v)"

definition build_lr_scheduler ::
  "sched_registry \<Rightarrow> opt_conf \<Rightarrow> optim option \<Rightarrow> task \<Rightarrow> (error + lr_dict option) \<times> task"
  where
  "build_lr_scheduler sreg opt_conf opt t =
     (case hypers_lr t of
        None \<Rightarrow> (Inl AttributeError, t)
      | Some max_lrs \<Rightarrow>
          (case sch_name (scheduler opt_conf) of
             None \<Rightarrow>
               (Inr None,
                log_main_process INFO
                  ''scheduler is None, so no scheduler will be created.'' t)
           | Some n \<Rightarrow>
               (let kwds = scheduler_kwds max_lrs (sch_init_args (scheduler opt_conf)) []
                in case registry_get sreg n of
                     Inl e \<Rightarrow> (Inl e, t)
                   | Inr instance \<Rightarrow>
                       (case instance opt kwds of
                          Inl e \<Rightarrow> (Inl e, t)
                        | Inr sch \<Rightarrow>
                            (Inr (Some \<lparr>ld_scheduler = sch,
                                        ld_interval = interval (scheduler opt_conf),
                                        ld_monitor = monitor (scheduler opt_conf)\<rparr>),
                             log_main_process DEBUG
                               (''Created lr_scheduler : '' @ sched_class sch @ ''.'') t)))))"

definition setup_optimization ::
  "optim_registry \<Rightarrow> sched_registry \<Rightarrow> opt_conf option \<Rightarrow> task \<Rightarrow> (error + unit) \<times> task"
  where
  "setup_optimization oreg sreg conf t =
     (let opt_conf = (case conf of None \<Rightarrow> cfg_optimization t | Some c \<Rightarrow> Some c)
      in case opt_conf of
           None \<Rightarrow>
             (Inr (),
              (log_main_process WARNING
                 ''No optimization config found, therefore no optimizer was created'' t)
                \<lparr>task_optimizer := Value None, task_scheduler := Value None\<rparr>)
         | Some oc \<Rightarrow>
             (case process_optim_config t oc of
                (Inl e, t1) \<Rightarrow> (Inl e, t1)
              | (Inr oc', t1) \<Rightarrow>
                  (case build_optimizer oreg oc' (param_dicts t1) t1 of
                     (Inl e, t2) \<Rightarrow> (Inl e, t2)
                   | (Inr opt, t2) \<Rightarrow>
                       (case build_lr_scheduler sreg oc' opt
                               (t2\<lparr>task_optimizer := Value opt\<rparr>) of
                          (Inl e, t3) \<Rightarrow> (Inl e, t3)
                        | (Inr sch, t3) \<Rightarrow>
                            (Inr (), t3\<lparr>task_scheduler := Value sch\<rparr>)))))"

section \<open>The loss library: \<open>gale/core/nn/losses.py\<close>\<close>

subsection \<open>\<open>build_loss\<close>\<close>

text \<open>
  A loss object is its class name and the keyword arguments it was built from.
  \<open>LOSS_REGISTRY\<close> and the module \<open>torch.nn.modules.loss\<close> are name-keyed tables of
  constructors, and \<open>torch.tensor\<close> is a function that may raise; all three are
  parameters. In a config, \<open>name_key\<close> is \<open>None\<close> when the key \<open>name\<close> is absent,
  \<open>init_args_key\<close> is \<open>None\<close> when the key \<open>init_args\<close> is absent and \<open>Some None\<close>
  when it is null. The closing \<open>_logger.info\<close> line has no effect on the result and is
  left out.
\<close>

datatype loss = Loss (loss_class: string) (loss_kwargs: dict)

type_synonym loss_table = "string \<Rightarrow> (dict \<Rightarrow> error + loss) option"

record loss_config =
  name_key :: "string option"
  init_args_key :: "dict option option"

definition convert_weight ::
  "(pyval \<Rightarrow> error + pyval) \<Rightarrow> dict option \<Rightarrow> error + dict option" where
  "convert_weight tensor args =
     (case args of
        None \<Rightarrow> Inr None
      | Some a \<Rightarrow>
          (case map_of a ''weight'' of
             None \<Rightarrow> Inr (Some a)
           | Some w \<Rightarrow>
               if w = VNone then Inr (Some a)
               else (case tensor w of
                       Inl e \<Rightarrow> Inl e
                     | Inr tw \<Rightarrow> Inr (Some (dict_set a ''weight'' tw)))))"

definition resolve_loss :: "loss_table \<Rightarrow> loss_table \<Rightarrow> string \<Rightarrow> error + (dict \<Rightarrow> error + loss)"
  where
  "resolve_loss LOSS_REGISTRY torch_losses name =
     (case LOSS_REGISTRY name of
        Some instance \<Rightarrow> Inr instance
      | None \<Rightarrow>
          (case torch_losses name of
             None \<Rightarrow> Inl AssertionError
           | Some instance \<Rightarrow> Inr instance))"

definition build_loss ::
  "loss_table \<Rightarrow> loss_table \<Rightarrow> (pyval \<Rightarrow> error + pyval) \<Rightarrow> loss_config \<Rightarrow> error + loss"
  where
  "build_loss LOSS_REGISTRY torch_losses tensor config =
     (case name_key config of
        None \<Rightarrow> Inl AssertionError
      | Some name \<Rightarrow>
          (case init_args_key config of
             None \<Rightarrow> Inl KeyError
           | Some args0 \<Rightarrow>
               (case convert_weight tensor args0 of
                  Inl e \<Rightarrow> Inl e
                | Inr args \<Rightarrow>
                    (case resolve_loss LOSS_REGISTRY torch_losses name of
                       Inl e \<Rightarrow> Inl e
                     | Inr instance \<Rightarrow>
                         (case args of
                            Some a \<Rightarrow> instance a
                          | None \<Rightarrow> instance [])))))"

subsection \<open>\<open>LabelSmoothingCrossEntropy.forward\<close>\<close>

text \<open>
  A float is a finite number, an infinity or NaN; the two signed zeros are one value.
  The elementwise operations follow IEEE arithmetic on infinities and NaN, and round
  the finite result of an operation on finite operands with a rounding function, which
  may overflow to an infinity.
\<close>

datatype fl = Fin real | PInf | MInf | NaN

fun is_finite :: "fl \<Rightarrow> bool" where
  "is_finite (Fin r) = True"
| "is_finite x = False"

fun fneg :: "fl \<Rightarrow> fl" where
  "fneg (Fin r) = Fin (- r)"
| "fneg PInf = MInf"
| "fneg MInf = PInf"
| "fneg NaN = NaN"

fun fadd :: "(real \<Rightarrow> fl) \<Rightarrow> fl \<Rightarrow> fl \<Rightarrow> fl" where
  "fadd rd (Fin a) (Fin b) = rd (a + b)"
| "fadd rd (Fin a) PInf = PInf"
| "fadd rd (Fin a) MInf = MInf"
| "fadd rd PInf (Fin b) = PInf"
| "fadd rd MInf (Fin b) = MInf"
| "fadd rd PInf PInf = PInf"
| "fadd rd MInf MInf = MInf"
| "fadd rd x y = NaN"

definition fsub :: "(real \<Rightarrow> fl) \<Rightarrow> fl \<Rightarrow> fl \<Rightarrow> fl" where
  "fsub rd x y = fadd rd x (fneg y)"

fun fmul :: "(real \<Rightarrow> fl) \<Rightarrow> fl \<Rightarrow> fl \<Rightarrow> fl" where
  "fmul rd (Fin a) (Fin b) = rd (a * b)"
| "fmul rd (Fin a) PInf = (if a = 0 then NaN else if 0 < a then PInf else MInf)"
| "fmul rd (Fin a) MInf = (if a = 0 then NaN else if 0 < a then MInf else PInf)"
| "fmul rd PInf (Fin b) = (if b = 0 then NaN else if 0 < b then PInf else MInf)"
| "fmul rd MInf (Fin b) = (if b = 0 then NaN else if 0 < b then MInf else PInf)"
| "fmul rd PInf PInf = PInf"
| "fmul rd PInf MInf = MInf"
| "fmul rd MInf PInf = MInf"
| "fmul rd MInf MInf = PInf"
| "fmul rd x y = NaN"

fun fdiv :: "(real \<Rightarrow> fl) \<Rightarrow> fl \<Rightarrow> fl \<Rightarrow> fl" where
  "fdiv rd (Fin a) (Fin b) =
     (if b = 0 then (if a = 0 then NaN else if 0 < a then PInf else MInf)
      else rd (a / b))"
| "fdiv rd (Fin a) PInf = Fin 0"
| "fdiv rd (Fin a) MInf = Fin 0"
| "fdiv rd PInf (Fin b) = (if 0 \<le> b then PInf else MInf)"
| "fdiv rd MInf (Fin b) = (if 0 \<le> b then MInf else PInf)"
| "fdiv rd x y = NaN"

text \<open>
  An input of shape \<open>(N, C)\<close> is \<open>N\<close> rows of \<open>C\<close> floats; a result is a scalar or a
  vector.
\<close>

record matrix =
  ncols :: nat
  mrows :: "fl list list"

datatype tensor_out = Scalar fl | Vector "fl list"

fun t_map :: "(fl \<Rightarrow> fl) \<Rightarrow> tensor_out \<Rightarrow> tensor_out" where
  "t_map f (Scalar x) = Scalar (f x)"
| "t_map f (Vector xs) = Vector (map f xs)"

fun t_all :: "(fl \<Rightarrow> bool) \<Rightarrow> tensor_out \<Rightarrow> bool" where
  "t_all P (Scalar x) = P x"
| "t_all P (Vector xs) = list_all P xs"

fun same_shape :: "tensor_out \<Rightarrow> tensor_out \<Rightarrow> bool" where
  "same_shape (Scalar x) (Scalar y) = True"
| "same_shape (Vector xs) (Vector ys) = (length xs = length ys)"
| "same_shape a b = False"

text \<open>
  Addition of two results: a scalar, or a vector of one element, broadcasts over a
  vector; vectors of other different lengths do not add.
\<close>

fun t_add :: "(real \<Rightarrow> fl) \<Rightarrow> tensor_out \<Rightarrow> tensor_out \<Rightarrow> error + tensor_out" where
  "t_add rd (Scalar x) (Scalar y) = Inr (Scalar (fadd rd x y))"
| "t_add rd (Scalar x) (Vector ys) = Inr (Vector (map (\<lambda>y. fadd rd x y) ys))"
| "t_add rd (Vector xs) (Scalar y) = Inr (Vector (map (\<lambda>x. fadd rd x y) xs))"
| "t_add rd (Vector xs) (Vector ys) =
     (if length xs = length ys then Inr (Vector (map2 (fadd rd) xs ys))
      else if length xs = 1 then Inr (Vector (map (\<lambda>y. fadd rd (hd xs) y) ys))
      else if length ys = 1 then Inr (Vector (map (\<lambda>x. fadd rd x (hd ys)) xs))
      else Inl RuntimeError)"

text \<open>
  The operations of torch that \<open>forward\<close> calls are parameters, since torch is not part
  of the sources: the rounding of its elementwise arithmetic, \<open>F.log_softmax(x, dim=1)\<close>,
  \<open>x.sum()\<close>, \<open>x.sum(dim=1)\<close>, \<open>x.mean()\<close> and
  \<open>F.nll_loss(x, target, weight=w, reduction=r)\<close>.
\<close>

record torch =
  rnd :: "real \<Rightarrow> fl"
  log_softmax :: "fl list list \<Rightarrow> fl list list"
  sum_all :: "fl list list \<Rightarrow> fl"
  sum_dim1 :: "fl list list \<Rightarrow> fl list"
  mean :: "fl list \<Rightarrow> fl"
  nll_loss :: "fl list list \<Rightarrow> int list \<Rightarrow> fl list option \<Rightarrow> string \<Rightarrow> error + tensor_out"

text \<open>The smoothing term: \<open>loss\<close> as it stands before the last statement of \<open>forward\<close>.\<close>

definition smoothing_term :: "torch \<Rightarrow> string \<Rightarrow> fl list list \<Rightarrow> tensor_out" where
  "smoothing_term T reduction log_preds =
     (if reduction = ''sum'' then Scalar (fneg (sum_all T log_preds))
      else if reduction = ''mean'' then Scalar (mean T (map fneg (sum_dim1 T log_preds)))
      else Vector (map fneg (sum_dim1 T log_preds)))"

definition label_smoothing_forward ::
  "torch \<Rightarrow> real \<Rightarrow> string \<Rightarrow> fl list option \<Rightarrow> matrix \<Rightarrow> int list \<Rightarrow> error + tensor_out"
  where
  "label_smoothing_forward T eps reduction weight input target =
     (let c = ncols input;
          log_preds = log_softmax T (mrows input);
          loss = smoothing_term T reduction log_preds;
          scaled = t_map (\<lambda>x. fdiv (rnd T) (fmul (rnd T) x (Fin eps)) (Fin (real c))) loss
      in case nll_loss T log_preds target weight reduction of
           Inl e \<Rightarrow> Inl e
         | Inr nll \<Rightarrow>
             t_add (rnd T) scaled
               (t_map (\<lambda>x. fmul (rnd T) (fsub (rnd T) (Fin 1) (Fin eps)) x) nll))"

text \<open>The plain cross-entropy the smoothing loss is compared with.\<close>

definition cross_entropy :: "torch \<Rightarrow> string \<Rightarrow> matrix \<Rightarrow> int list \<Rightarrow> error + tensor_out" where
  "cross_entropy T reduction input target =
     nll_loss T (log_softmax T (mrows input)) target None reduction"

text \<open>A float that rounding leaves as it is: every value a tensor can hold is one.\<close>

fun representable :: "(real \<Rightarrow> fl) \<Rightarrow> fl \<Rightarrow> bool" where
  "representable rd (Fin r) = (rd r = Fin r)"
| "representable rd x = True"

subsection \<open>The torch operations in exact arithmetic\<close>

text \<open>
  One instance of the torch operations, used for the concrete evaluations below: no
  rounding, sums from left to right, \<open>log_softmax\<close> as \<open>x - log (sum (exp x))\<close>, and
  \<open>nll_loss\<close> with its default \<open>ignore_index = -100\<close>, one term \<open>- w[t] * x[i][t]\<close> per
  sample and a mean that divides by the sum of the weights used.
\<close>

fun fexp :: "fl \<Rightarrow> fl" where
  "fexp (Fin r) = Fin (exp r)"
| "fexp PInf = PInf"
| "fexp MInf = Fin 0"
| "fexp NaN = NaN"

fun fln :: "fl \<Rightarrow> fl" where
  "fln (Fin r) = (if 0 < r then Fin (ln r) else if r = 0 then MInf else NaN)"
| "fln PInf = PInf"
| "fln x = NaN"

definition exact_sum :: "fl list \<Rightarrow> fl" where
  "exact_sum xs = foldl (fadd Fin) (Fin 0) xs"

definition exact_log_softmax :: "fl list \<Rightarrow> fl list" where
  "exact_log_softmax xs = map (\<lambda>x. fsub Fin x (fln (exact_sum (map fexp xs)))) xs"

fun exact_nll_terms :: "fl list option \<Rightarrow> fl list list \<Rightarrow> int list \<Rightarrow> error + (fl \<times> fl) list"
  where
  "exact_nll_terms weight [] [] = Inr []"
| "exact_nll_terms weight (r # rs) (t # ts) =
     (if t = - 100 then
        (case exact_nll_terms weight rs ts of
           Inl e \<Rightarrow> Inl e
         | Inr zs \<Rightarrow> Inr ((Fin 0, Fin 0) # zs))
      else if t < 0 \<or> int (length r) \<le> t then Inl IndexError
      else
        (let w = (case weight of None \<Rightarrow> Fin 1 | Some ws \<Rightarrow> ws ! nat t)
         in case exact_nll_terms weight rs ts of
              Inl e \<Rightarrow> Inl e
            | Inr zs \<Rightarrow> Inr ((fneg (fmul Fin w (r ! nat t)), w) # zs)))"
| "exact_nll_terms weight rs ts = Inl ValueError"

definition exact_nll_loss ::
  "fl list list \<Rightarrow> int list \<Rightarrow> fl list option \<Rightarrow> string \<Rightarrow> error + tensor_out" where
  "exact_nll_loss input target weight reduction =
     (if reduction \<noteq> ''none'' \<and> reduction \<noteq> ''mean'' \<and> reduction \<noteq> ''sum''
      then Inl ValueError
      else if length target \<noteq> length input then Inl ValueError
      else if (case weight of
                 None \<Rightarrow> False
               | Some ws \<Rightarrow> list_ex (\<lambda>r. length ws \<noteq> length r) input)
      then Inl RuntimeError
      else
        (case exact_nll_terms weight input target of
           Inl e \<Rightarrow> Inl e
         | Inr zs \<Rightarrow>
             if reduction = ''none'' then Inr (Vector (map fst zs))
             else if reduction = ''sum'' then Inr (Scalar (exact_sum (map fst zs)))
             else Inr (Scalar (fdiv Fin (exact_sum (map fst zs))
                                        (exact_sum (map snd zs))))))"

definition exact_torch :: torch where
  "exact_torch =
     \<lparr>rnd = Fin,
      log_softmax = map exact_log_softmax,
      sum_all = (\<lambda>rows. exact_sum (concat rows)),
      sum_dim1 = map exact_sum,
      mean = (\<lambda>xs. fdiv Fin (exact_sum xs) (Fin (real (length xs)))),
      nll_loss = exact_nll_loss\<rparr>"

section \<open>Dataframe helpers: \<open>gale/collections/pandas.py\<close>\<close>

text \<open>
  A dataframe is its column labels and its rows; a row carries its index label and one
  cell per column. Frames are rectangular: every row is as long as \<open>columns\<close>. Pandas
  lets a column label repeat.
\<close>

datatype cell = CStr string | CInt int

record dataframe =
  columns :: "string list"
  rows :: "(nat \<times> cell list) list"

definition data :: "dataframe \<Rightarrow> cell list list" where
  "data df = map snd (rows df)"

text \<open>The positions at which a column label occurs, counted from \<open>n\<close>.\<close>

fun positions_from :: "nat \<Rightarrow> string \<Rightarrow> string list \<Rightarrow> nat list" where
  "positions_from n c [] = []"
| "positions_from n c (x # xs) =
     (if x = c then n # positions_from (Suc n) c xs else positions_from (Suc n) c xs)"

definition positions :: "string \<Rightarrow> string list \<Rightarrow> nat list" where
  "positions c cs = positions_from 0 c cs"

text \<open>
  \<open>df[column]\<close>: \<open>KeyError\<close> when the frame has no such column, the cells of the
  column as a Series when the label occurs once, and a sub-dataframe of all the columns
  of that label when it occurs more than once.
\<close>

datatype selection = Series "cell list" | Frame "cell list list"

definition get_column :: "dataframe \<Rightarrow> string \<Rightarrow> error + selection" where
  "get_column df c =
     (case positions c (columns df) of
        [] \<Rightarrow> Inl KeyError
      | [i] \<Rightarrow> Inr (Series (map (\<lambda>r. r ! i) (data df)))
      | i # j # js \<Rightarrow> Inr (Frame (map (\<lambda>r. map (\<lambda>k. r ! k) (i # j # js)) (data df))))"

text \<open>\<open>column == split_idx\<close>, cell by cell: a string never equals an integer.\<close>

fun cell_eq_int :: "cell \<Rightarrow> int \<Rightarrow> bool" where
  "cell_eq_int (CInt i) n = (i = n)"
| "cell_eq_int (CStr s) n = False"

text \<open>
  \<open>df.loc[mask]\<close> with a boolean Series keeps the rows whose mask entry is true, with
  their index labels; with a boolean dataframe as the key it raises \<open>ValueError\<close>.
\<close>

fun loc_mask :: "bool list \<Rightarrow> (nat \<times> cell list) list \<Rightarrow> (nat \<times> cell list) list" where
  "loc_mask (m # ms) (r # rs) = (if m then r # loc_mask ms rs else loc_mask ms rs)"
| "loc_mask ms rs = []"

text \<open>\<open>reset_index(drop=True)\<close> renumbers the index labels from 0.\<close>

definition reset_index :: "dataframe \<Rightarrow> dataframe" where
  "reset_index df = df\<lparr>rows := zip [0..<length (rows df)] (map snd (rows df))\<rparr>"

definition get_dataframe_fold ::
  "dataframe \<Rightarrow> string \<Rightarrow> int \<Rightarrow> error + dataframe \<times> dataframe" where
  "get_dataframe_fold dataframe split_column split_idx =
     (case get_column dataframe split_column of
        Inl e \<Rightarrow> Inl e
      | Inr (Frame sub) \<Rightarrow> Inl ValueError
      | Inr (Series col) \<Rightarrow>
          (let train_data =
                 dataframe\<lparr>rows := loc_mask (map (\<lambda>x. \<not> cell_eq_int x split_idx) col)
                                              (rows dataframe)\<rparr>;
               valid_data =
                 dataframe\<lparr>rows := loc_mask (map (\<lambda>x. cell_eq_int x split_idx) col)
                                              (rows dataframe)\<rparr>
           in Inr (reset_index train_data, reset_index valid_data)))"

subsection \<open>\<open>get_dataset_labeling\<close>\<close>

text \<open>\<open>Series.unique()\<close>: the distinct cells in order of first appearance.\<close>

fun unique_from :: "'a list \<Rightarrow> 'a list \<Rightarrow> 'a list" where
  "unique_from seen [] = seen"
| "unique_from seen (x # xs) =
     unique_from (if x \<in> set seen then seen else seen @ [x]) xs"

definition unique :: "'a list \<Rightarrow> 'a list" where
  "unique xs = unique_from [] xs"

fun is_str :: "cell \<Rightarrow> bool" where
  "is_str (CStr s) = True"
| "is_str (CInt i) = False"

fun is_int :: "cell \<Rightarrow> bool" where
  "is_int (CInt i) = True"
| "is_int (CStr s) = False"

fun str_val :: "cell \<Rightarrow> string" where
  "str_val (CStr s) = s"
| "str_val (CInt i) = []"

fun int_val :: "cell \<Rightarrow> int" where
  "int_val (CInt i) = i"
| "int_val (CStr s) = 0"

text \<open>
  \<open>sorted(cells)\<close>: strings sort by code point, integers by value, and comparing a
  string with an integer is a \<open>TypeError\<close>.
\<close>

definition py_sorted :: "cell list \<Rightarrow> error + cell list" where
  "py_sorted cells =
     (if list_all is_str cells then Inr (map CStr (sort (map str_val cells)))
      else if list_all is_int cells then Inr (map CInt (sort (map int_val cells)))
      else Inl TypeError)"

fun str_cell :: "cell \<Rightarrow> string" where
  "str_cell (CStr s) = s"
| "str_cell (CInt i) = str_int i"

text \<open>The dict comprehension over \<open>enumerate(...)\<close>, counting from \<open>label\<close>.\<close>

fun enumerate_labels :: "nat \<Rightarrow> cell list \<Rightarrow> (string \<times> nat) list \<Rightarrow> (string \<times> nat) list"
  where
  "enumerate_labels label [] tag_to_labels = tag_to_labels"
| "enumerate_labels label (class_name # cs) tag_to_labels =
     enumerate_labels (Suc label) cs (dict_set tag_to_labels (str_cell class_name) label)"

definition get_dataset_labeling :: "dataframe \<Rightarrow> string \<Rightarrow> error + (string \<times> nat) list" where
  "get_dataset_labeling dataframe label_column =
     (case get_column dataframe label_column of
        Inl e \<Rightarrow> Inl e
      | Inr (Frame sub) \<Rightarrow> Inl AttributeError
      | Inr (Series col) \<Rightarrow>
          (case py_sorted (unique col) of
             Inl e \<Rightarrow> Inl e
           | Inr classes \<Rightarrow> Inr (enumerate_labels 0 classes [])))"

text \<open>
  The label index in the words of the spec: the unique label strings, sorted, numbered
  consecutively from 0. It is compared below with what \<open>get_dataset_labeling\<close> computes.
\<close>

definition spec_label_index :: "string set \<Rightarrow> (string \<times> nat) list" where
  "spec_label_index S = zip (sorted_list_of_set S) [0..<card S]"

subsection \<open>\<open>dataframe_labels_2_int\<close>, on a store of dataframe objects\<close>

text \<open>
  The caller passes a reference to a dataframe object; the store maps references to the
  objects they denote, so that a copy and a mutation in place are told apart.
\<close>

record store =
  next_ref :: nat
  objs :: "nat \<Rightarrow> dataframe option"

text \<open>\<open>dataframe.copy()\<close> allocates a new object with the same contents.\<close>

definition df_copy :: "nat \<Rightarrow> store \<Rightarrow> (error + nat) \<times> store" where
  "df_copy r s =
     (case objs s r of
        None \<Rightarrow> (Inl AttributeError, s)
      | Some df \<Rightarrow>
          (Inr (next_ref s),
           s\<lparr>next_ref := Suc (next_ref s), objs := (objs s)(next_ref s \<mapsto> df)\<rparr>))"

text \<open>\<open>series.apply(lambda x: tag_to_labels[str(x)])\<close>.\<close>

fun apply_labels :: "(string \<times> nat) list \<Rightarrow> cell list \<Rightarrow> error + cell list" where
  "apply_labels tag_to_labels [] = Inr []"
| "apply_labels tag_to_labels (x # xs) =
     (case map_of tag_to_labels (str_cell x) of
        None \<Rightarrow> Inl KeyError
      | Some l \<Rightarrow>
          (case apply_labels tag_to_labels xs of
             Inl e \<Rightarrow> Inl e
           | Inr ys \<Rightarrow> Inr (CInt (int l) # ys)))"

text \<open>
  \<open>df[column] = values\<close> on an existing column, at position \<open>i\<close>: each row gets its new
  cell. The assignment writes every column that carries the label.
\<close>

definition set_column :: "dataframe \<Rightarrow> nat \<Rightarrow> cell list \<Rightarrow> dataframe" where
  "set_column df i vs =
     df\<lparr>rows := map2 (\<lambda>(ix, r) v. (ix, r[i := v])) (rows df) vs\<rparr>"

definition dataframe_labels_2_int ::
  "nat \<Rightarrow> string \<Rightarrow> bool \<Rightarrow> store \<Rightarrow>
     (error + nat \<times> (string \<times> nat) list option) \<times> store" where
  "dataframe_labels_2_int dataframe label_column return_labelling s =
     (case df_copy dataframe s of
        (Inl e, s1) \<Rightarrow> (Inl e, s1)
      | (Inr data_ref, s1) \<Rightarrow>
          (case objs s1 data_ref of
             None \<Rightarrow> (Inl AttributeError, s1)
           | Some df \<Rightarrow>
               (case get_dataset_labeling df label_column of
                  Inl e \<Rightarrow> (Inl e, s1)
                | Inr tag_to_labels \<Rightarrow>
                    (case get_column df label_column of
                       Inl e \<Rightarrow> (Inl e, s1)
                     | Inr (Frame sub) \<Rightarrow> (Inl TypeError, s1)
                     | Inr (Series col) \<Rightarrow>
                         (case apply_labels tag_to_labels col of
                            Inl e \<Rightarrow> (Inl e, s1)
                          | Inr vs \<Rightarrow>
                              (Inr (data_ref,
                                    if return_labelling then Some tag_to_labels else None),
                               s1\<lparr>objs := (objs s1)
                                    (data_ref \<mapsto>
                                       fold (\<lambda>i d. set_column d i vs)
                                         (positions label_column (columns df)) df)\<rparr>))))))"


section \<open>The logger: \<open>gale/utils/logger.py\<close>\<close>

text \<open>
  A call of \<open>setup_logger\<close> is written with at most one positional argument (the rank)
  and keyword arguments in some order. \<open>functools.lru_cache()\<close> keys its cache on the
  call as written: the positional arguments, then the keyword arguments in the order
  given.
\<close>

datatype kwarg = Rank int | Color bool | Name string | Level int

record call =
  positional :: "int list"
  kwargs :: "kwarg list"

fun kw_key :: "kwarg \<Rightarrow> string" where
  "kw_key (Rank r) = ''distributed_rank''"
| "kw_key (Color c) = ''color''"
| "kw_key (Name n) = ''name''"
| "kw_key (Level l) = ''level''"

record bound =
  distributed_rank :: int
  color :: bool
  name :: string
  lvl :: int

fun bind_kw :: "kwarg \<Rightarrow> bound \<Rightarrow> bound" where
  "bind_kw (Rank r) b = b\<lparr>distributed_rank := r\<rparr>"
| "bind_kw (Color c) b = b\<lparr>color := c\<rparr>"
| "bind_kw (Name n) b = b\<lparr>name := n\<rparr>"
| "bind_kw (Level l) b = b\<lparr>lvl := l\<rparr>"

text \<open>
  Binding the call to the signature
  \<open>(distributed_rank=0, *, color=True, name="gale", level=logging.DEBUG)\<close>; a second
  positional argument, a repeated keyword, or a rank given twice is a \<open>TypeError\<close>.
\<close>

definition bind_args :: "call \<Rightarrow> error + bound" where
  "bind_args c =
     (if 1 < length (positional c) then Inl TypeError
      else if \<not> distinct (map kw_key (kwargs c)) then Inl TypeError
      else if positional c \<noteq> [] \<and> ''distributed_rank'' \<in> set (map kw_key (kwargs c))
      then Inl TypeError
      else Inr (fold bind_kw (kwargs c)
                  \<lparr>distributed_rank = (case positional c of [] \<Rightarrow> 0 | r # rs \<Rightarrow> r),
                   color = True, name = ''gale'', lvl = 10\<rparr>))"

text \<open>
  The state of Python's \<open>logging\<close> module: one logger object per name, so a logger is
  referred to by its name (the empty name is the root logger). A handler is the stream
  handler on stdout with its level and whether its formatter is the colourful one.
\<close>

record handler =
  h_level :: int
  h_colorful :: bool

record logger =
  lg_level :: int
  propagate :: bool
  handlers :: "handler list"

record logging_state =
  loggers :: "string \<Rightarrow> logger option"
  cache :: "((int list \<times> kwarg list) \<times> string) list"

definition logger_ref :: "string \<Rightarrow> string" where
  "logger_ref n = (if n = [] then ''root'' else n)"

text \<open>\<open>logging.getLogger(name)\<close>: the logger of that name, created on first use.\<close>

definition get_logger :: "string \<Rightarrow> (string \<Rightarrow> logger option) \<Rightarrow> logger" where
  "get_logger r ls =
     (case ls r of
        None \<Rightarrow> \<lparr>lg_level = 0, propagate = True, handlers = []\<rparr>
      | Some l \<Rightarrow> l)"

text \<open>The body of \<open>setup_logger\<close>, run on a cache miss.\<close>

definition setup_logger_body ::
  "bound \<Rightarrow> (string \<Rightarrow> logger option) \<Rightarrow> string \<times> (string \<Rightarrow> logger option)" where
  "setup_logger_body b ls =
     (let r = logger_ref (name b);
          logger1 = (get_logger r ls)\<lparr>lg_level := lvl b, propagate := False\<rparr>;
          logger2 = (if distributed_rank b = 0
                     then logger1\<lparr>handlers := handlers logger1
                                     @ [\<lparr>h_level = 10, h_colorful = color b\<rparr>]\<rparr>
                     else logger1)
      in (r, ls(r \<mapsto> logger2)))"

text \<open>
  The cached function. The cache lists its entries least recently used first and holds
  at most 128 of them, the default \<open>maxsize\<close>: a hit moves the entry to the end, a miss
  runs the body, stores the result and, when the cache is full, drops the oldest entry.
\<close>

definition setup_logger :: "call \<Rightarrow> logging_state \<Rightarrow> (error + string) \<times> logging_state" where
  "setup_logger c s =
     (let key = (positional c, kwargs c)
      in case map_of (cache s) key of
           Some r \<Rightarrow>
             (Inr r, s\<lparr>cache := filter (\<lambda>e. fst e \<noteq> key) (cache s) @ [(key, r)]\<rparr>)
         | None \<Rightarrow>
             (case bind_args c of
                Inl e \<Rightarrow> (Inl e, s)
              | Inr b \<Rightarrow>
                  (let res = setup_logger_body b (loggers s);
                       kept = (if 128 \<le> length (cache s) then tl (cache s) else cache s)
                   in (Inr (fst res),
                       \<lparr>loggers = snd res, cache = kept @ [(key, fst res)]\<rparr>))))"

text \<open>The handlers attached to the logger of a name, none if there is no such logger.\<close>

definition handlers_of :: "logging_state \<Rightarrow> string \<Rightarrow> handler list" where
  "handlers_of s n = (case loggers s n of None \<Rightarrow> [] | Some l \<Rightarrow> handlers l)"


section \<open>Example inputs\<close>

definition ex_trainer :: trainer where
  "ex_trainer =
     \<lparr>max_epochs = Some 2, max_steps = None, limit_train_batches = LimitFloat 1,
      accumulate_grad_batches = 1, num_gpus = 1, num_processes = 1, tpu_cores = None\<rparr>"

definition ex_trainer_unset :: trainer where
  "ex_trainer_unset = ex_trainer\<lparr>max_epochs := None, max_steps := None\<rparr>"

definition ex_conf :: "string option \<Rightarrow> dict \<Rightarrow> opt_conf" where
  "ex_conf sname sargs =
     \<lparr>conf_steps_per_epoch = - 1, conf_max_steps = - 1, conf_max_epochs = - 1,
      optimizer = \<lparr>opt_name = None, opt_init_args = []\<rparr>,
      scheduler = \<lparr>sch_name = sname, sch_init_args = sargs,
                   interval = ''step'', monitor = None\<rparr>\<rparr>"

definition ex_task :: "trainer \<Rightarrow> task" where
  "ex_task tr =
     \<lparr>task_trainer = tr, train_dl = Some 500, hypers_lr = Some (VFloat (1 / 2)),
      cfg_optimization = None, param_dicts = [0, 1],
      task_optimizer = Noop, task_scheduler = Noop, task_log = []\<rparr>"

definition ex_optim_registry :: optim_registry where
  "ex_optim_registry = Map.empty"

definition ex_one_cycle :: "optim option \<Rightarrow> dict \<Rightarrow> error + sched" where
  "ex_one_cycle opt kwds = Inr (Sched ''OneCycleLR'' opt kwds)"

definition ex_sched_registry :: sched_registry where
  "ex_sched_registry = [''OneCycleLR'' \<mapsto> ex_one_cycle]"

text \<open>A scheduler class that, as those of torch do, rejects an optimizer of \<open>None\<close>.\<close>

definition ex_torch_scheduler :: "optim option \<Rightarrow> dict \<Rightarrow> error + sched" where
  "ex_torch_scheduler opt kwds =
     (case opt of None \<Rightarrow> Inl TypeError | Some x \<Rightarrow> Inr (Sched ''OneCycleLR'' opt kwds))"

definition ex_torch_sched_registry :: sched_registry where
  "ex_torch_sched_registry = [''OneCycleLR'' \<mapsto> ex_torch_scheduler]"

definition ex_sched_args :: dict where
  "ex_sched_args = [(''max_lr'', VFloat (1 / 10)), (''epochs'', VInt (- 1))]"

definition ex_sched_args_list :: dict where
  "ex_sched_args_list = [(''max_lr'', VList [VFloat (1 / 10), VFloat (1 / 5)])]"

definition ex_loss_ctor :: "string \<Rightarrow> dict \<Rightarrow> error + loss" where
  "ex_loss_ctor cls args = Inr (Loss cls args)"

definition ex_loss_registry :: loss_table where
  "ex_loss_registry =
     [''LabelSmoothingCrossEntropy'' \<mapsto> ex_loss_ctor ''LabelSmoothingCrossEntropy'',
      ''FocalLoss'' \<mapsto> ex_loss_ctor ''FocalLoss'']"

definition ex_torch_losses :: loss_table where
  "ex_torch_losses = [''CrossEntropyLoss'' \<mapsto> ex_loss_ctor ''CrossEntropyLoss'']"

definition ex_tensor :: "pyval \<Rightarrow> error + pyval" where
  "ex_tensor v = (if is_list v then Inr v else Inl TypeError)"

definition ex_loss_config :: "string \<Rightarrow> loss_config" where
  "ex_loss_config n =
     \<lparr>name_key = Some n, init_args_key = Some (Some [(''reduction'', VStr ''mean'')])\<rparr>"

definition ex_logits :: matrix where
  "ex_logits = \<lparr>ncols = 2, mrows = [[Fin 0, Fin 0]]\<rparr>"

definition ex_logits_masked :: matrix where
  "ex_logits_masked = \<lparr>ncols = 2, mrows = [[Fin 0, MInf]]\<rparr>"

definition ex_df :: dataframe where
  "ex_df =
     \<lparr>columns = [''image_id'', ''target'', ''kfold''],
      rows = [(0, [CStr ''a.png'', CStr ''dog'', CInt 0]),
              (1, [CStr ''b.png'', CStr ''cat'', CInt 1]),
              (2, [CStr ''c.png'', CStr ''dog'', CInt 1]),
              (3, [CStr ''d.png'', CStr ''cat'', CInt 0])]\<rparr>"

definition ex_df_rev :: dataframe where
  "ex_df_rev = ex_df\<lparr>rows := rev (rows ex_df)\<rparr>"

definition ex_store :: store where
  "ex_store = \<lparr>next_ref = 1, objs = [0 \<mapsto> ex_df]\<rparr>"

definition ex_logging :: logging_state where
  "ex_logging = \<lparr>loggers = Map.empty, cache = []\<rparr>"

definition ex_call_default :: call where
  "ex_call_default = \<lparr>positional = [], kwargs = []\<rparr>"

definition ex_call_rank0 :: call where
  "ex_call_rank0 = \<lparr>positional = [0], kwargs = []\<rparr>"

definition ex_call_rank1 :: call where
  "ex_call_rank1 = \<lparr>positional = [], kwargs = [Rank 1]\<rparr>"

section \<open>Properties of the task base\<close>

lemma num_devices_of_pos: "1 \<le> num_devices_of tr"
  by (auto simp add: num_devices_of_def Let_def max_def split: option.split)

lemma map_of_dict_set: "map_of (dict_set d k v) = (map_of d)(k \<mapsto> v)"
  by (induction d k v rule: dict_set.induct) (auto simp: fun_upd_twist)

lemma map_of_scheduler_kwds:
  "distinct (map fst items) \<Longrightarrow>
   map_of (scheduler_kwds lr items kwds) k =
     (case map_of items k of
        None \<Rightarrow> map_of kwds k
      | Some v \<Rightarrow> Some (if is_list v then v else if k = ''max_lr'' then lr else v))"
proof (induction items arbitrary: kwds)
  case Nil
  then show ?case by simp
next
  case (Cons a items)
  obtain key v where a: "a = (key, v)" by (cases a)
  from Cons.prems have d: "distinct (map fst items)" and nk: "key \<notin> fst ` set items"
    by (auto simp: a)
  have none: "k = key \<Longrightarrow> map_of items k = None"
    using nk by (simp add: map_of_eq_None_iff)
  show ?case
    using Cons.IH[OF d] none
    by (auto simp: a map_of_dict_set split: option.split)
qed

lemmas eval_task_defs =
  setup_optimization_def process_optim_config_def num_training_steps_def
  dataset_size_of_def num_devices_of_def py_int_def fill_sentinel_def build_optimizer_def
  build_lr_scheduler_def registry_get_def log_main_process_def str_int_def Let_def
  ex_trainer_def ex_trainer_unset_def ex_conf_def ex_task_def ex_optim_registry_def
  ex_sched_registry_def ex_one_cycle_def ex_sched_args_def ex_sched_args_list_def
  ex_torch_scheduler_def ex_torch_sched_registry_def

text \<open>
  C1. With \<open>max_epochs=None\<close>, \<open>max_steps=1000\<close>, \<open>accumulate_grad_batches=1\<close>,
  \<open>num_gpus=1\<close> and a training set of 500 batches, \<open>process_optim_config\<close> does not
  resolve anything: \<open>num_training_steps\<close> multiplies the steps per epoch by
  \<open>trainer.max_epochs\<close>, which is \<open>None\<close>, and the call ends in a \<open>TypeError\<close>, whatever
  the config, the number of processes and the TPU cores are.
\<close>

theorem process_optim_config_max_epochs_None:
  "process_optim_config
     \<lparr>task_trainer = \<lparr>max_epochs = None, max_steps = Some 1000,
                      limit_train_batches = LimitFloat 1, accumulate_grad_batches = 1,
                      num_gpus = 1, num_processes = np, tpu_cores = tc\<rparr>,
      train_dl = Some 500, hypers_lr = lr, cfg_optimization = cfg, param_dicts = ps,
      task_optimizer = Noop, task_scheduler = Noop, task_log = []\<rparr> oc
   = (Inl TypeError,
      \<lparr>task_trainer = \<lparr>max_epochs = None, max_steps = Some 1000,
                       limit_train_batches = LimitFloat 1, accumulate_grad_batches = 1,
                       num_gpus = 1, num_processes = np, tpu_cores = tc\<rparr>,
       train_dl = Some 500, hypers_lr = lr, cfg_optimization = cfg, param_dicts = ps,
       task_optimizer = Noop, task_scheduler = Noop, task_log = []\<rparr>)"
proof -
  let ?tr = "\<lparr>max_epochs = None, max_steps = Some 1000,
              limit_train_batches = LimitFloat 1, accumulate_grad_batches = 1,
              num_gpus = 1, num_processes = np, tpu_cores = tc\<rparr>"
  have "1 \<le> num_devices_of ?tr" by (rule num_devices_of_pos)
  then have "num_devices_of ?tr \<noteq> 0" by arith
  then show ?thesis
    by (simp add: process_optim_config_def num_training_steps_def dataset_size_of_def
        Let_def py_int_def)
qed

text \<open>
  C4. When the trainer has neither \<open>max_epochs\<close> nor \<open>max_steps\<close>,
  \<open>process_optim_config\<close> raises at once (the \<open>ValueError\<close> of the source is the spec's
  configuration error) and leaves the task untouched; \<open>setup_optimization\<close> on a config
  therefore raises the same error before \<open>build_optimizer\<close> and \<open>build_lr_scheduler\<close>
  run: the optimizer and scheduler attributes and the log are as before.
\<close>

theorem process_optim_config_both_None:
  "max_epochs (task_trainer t) = None \<Longrightarrow> max_steps (task_trainer t) = None \<Longrightarrow>
   process_optim_config t oc = (Inl ValueError, t) \<and>
   setup_optimization oreg sreg (Some oc) t = (Inl ValueError, t)"
  by (simp add: process_optim_config_def setup_optimization_def)

theorem process_optim_config_both_None_witness:
  "max_epochs (task_trainer (ex_task ex_trainer_unset)) = None \<and>
   max_steps (task_trainer (ex_task ex_trainer_unset)) = None \<and>
   process_optim_config (ex_task ex_trainer_unset) (ex_conf (Some ''OneCycleLR'') [])
     = (Inl ValueError, ex_task ex_trainer_unset) \<and>
   setup_optimization ex_optim_registry ex_sched_registry
       (Some (ex_conf (Some ''OneCycleLR'') [])) (ex_task ex_trainer_unset)
     = (Inl ValueError, ex_task ex_trainer_unset)"
  using process_optim_config_both_None
    [of "ex_task ex_trainer_unset" "ex_conf (Some ''OneCycleLR'') []"
        ex_optim_registry ex_sched_registry]
  by (simp add: ex_task_def ex_trainer_unset_def ex_trainer_def)


text \<open>
  C2. With the optimizer name unset and a scheduler name set, \<open>setup_optimization\<close>
  does not stop at the missing optimizer: it logs the warning, stores no optimizer, and
  then calls the registered scheduler constructor with \<open>optimizer=None\<close>. A constructor
  that accepts that yields a scheduler, which is stored; one that rejects it, as the
  schedulers of torch do, makes \<open>setup_optimization\<close> raise. With both names unset but no
  model set, the read of \<open>self._model.hypers.lr\<close> raises as well.
\<close>

theorem setup_optimization_scheduler_without_optimizer:
  "opt_name (optimizer (ex_conf (Some ''OneCycleLR'') ex_sched_args)) = None
   \<and> setup_optimization ex_optim_registry ex_sched_registry
       (Some (ex_conf (Some ''OneCycleLR'') ex_sched_args)) (ex_task ex_trainer)
     = (Inr (),
        (ex_task ex_trainer)
          \<lparr>task_optimizer := Value None,
           task_scheduler :=
             Value (Some \<lparr>ld_scheduler =
                            Sched ''OneCycleLR'' None
                              [(''max_lr'', VFloat (1 / 2)), (''epochs'', VInt 2)],
                          ld_interval = ''step'', ld_monitor = None\<rparr>),
           task_log :=
             [(DEBUG, ''Set the value of '' @ [CHR 0x27] @ ''epochs'' @ [CHR 0x27]
                        @ '' to be 2.''),
              (WARNING, ''Optimizer is None, therefore no optimizer will be created.''),
              (DEBUG, ''Created lr_scheduler : OneCycleLR.'')]\<rparr>)
   \<and> setup_optimization ex_optim_registry ex_torch_sched_registry
       (Some (ex_conf (Some ''OneCycleLR'') ex_sched_args)) (ex_task ex_trainer)
     = (Inl TypeError,
        (ex_task ex_trainer)
          \<lparr>task_optimizer := Value None,
           task_log :=
             [(DEBUG, ''Set the value of '' @ [CHR 0x27] @ ''epochs'' @ [CHR 0x27]
                        @ '' to be 2.''),
              (WARNING, ''Optimizer is None, therefore no optimizer will be created.'')]\<rparr>)
   \<and> setup_optimization ex_optim_registry ex_sched_registry (Some (ex_conf None []))
       ((ex_task ex_trainer)\<lparr>hypers_lr := None\<rparr>)
     = (Inl AttributeError,
        (ex_task ex_trainer)
          \<lparr>hypers_lr := None, task_optimizer := Value None,
           task_log :=
             [(WARNING, ''Optimizer is None, therefore no optimizer will be created.'')]\<rparr>)"
  by (simp add: eval_task_defs str_nat.simps)

text \<open>
  C3, as amended. When the scheduler's \<open>init_args\<close> hold a key \<open>max_lr\<close>,
  \<open>build_lr_scheduler\<close> calls the registered constructor with keyword arguments in which
  \<open>max_lr\<close> is the model's own \<open>hypers.lr\<close> if the configured value is not a list, and
  the configured list itself if it is a list.
\<close>

theorem build_lr_scheduler_max_lr:
  assumes "hypers_lr t = Some lr"
    and "sch_name (scheduler oc) = Some n"
    and "sreg n = Some instance"
    and "distinct (map fst (sch_init_args (scheduler oc)))"
    and "map_of (sch_init_args (scheduler oc)) ''max_lr'' = Some v"
  shows "fst (build_lr_scheduler sreg oc opt t) =
           (case instance opt (scheduler_kwds lr (sch_init_args (scheduler oc)) []) of
              Inl e \<Rightarrow> Inl e
            | Inr sch \<Rightarrow> Inr (Some \<lparr>ld_scheduler = sch,
                                    ld_interval = interval (scheduler oc),
                                    ld_monitor = monitor (scheduler oc)\<rparr>))
         \<and> map_of (scheduler_kwds lr (sch_init_args (scheduler oc)) []) ''max_lr''
             = Some (if is_list v then v else lr)"
proof -
  let ?kwds = "scheduler_kwds lr (sch_init_args (scheduler oc)) []"
  have "map_of ?kwds ''max_lr'' = Some (if is_list v then v else lr)"
    using map_of_scheduler_kwds[OF assms(4), of lr "[]" "''max_lr''"] assms(5) by simp
  moreover have "fst (build_lr_scheduler sreg oc opt t) =
             (case instance opt ?kwds of
                Inl e \<Rightarrow> Inl e
              | Inr sch \<Rightarrow> Inr (Some \<lparr>ld_scheduler = sch,
                                      ld_interval = interval (scheduler oc),
                                      ld_monitor = monitor (scheduler oc)\<rparr>))"
    using assms(1-3)
    by (simp add: build_lr_scheduler_def registry_get_def Let_def split: sum.split)
  ultimately show ?thesis by blast
qed

theorem build_lr_scheduler_max_lr_witness:
  "hypers_lr (ex_task ex_trainer) = Some (VFloat (1 / 2))
   \<and> sch_name (scheduler (ex_conf (Some ''OneCycleLR'') ex_sched_args)) = Some ''OneCycleLR''
   \<and> ex_sched_registry ''OneCycleLR'' = Some ex_one_cycle
   \<and> distinct (map fst (sch_init_args (scheduler (ex_conf (Some ''OneCycleLR'') ex_sched_args))))
   \<and> map_of (sch_init_args (scheduler (ex_conf (Some ''OneCycleLR'') ex_sched_args))) ''max_lr''
       = Some (VFloat (1 / 10))
   \<and> fst (build_lr_scheduler ex_sched_registry (ex_conf (Some ''OneCycleLR'') ex_sched_args)
            None (ex_task ex_trainer))
       = Inr (Some \<lparr>ld_scheduler =
                      Sched ''OneCycleLR'' None
                        [(''max_lr'', VFloat (1 / 2)), (''epochs'', VInt (- 1))],
                    ld_interval = ''step'', ld_monitor = None\<rparr>)
   \<and> map_of (scheduler_kwds (VFloat (1 / 2))
        (sch_init_args (scheduler (ex_conf (Some ''OneCycleLR'') ex_sched_args))) []) ''max_lr''
       = Some (VFloat (1 / 2))"
proof -
  let ?c = "ex_conf (Some ''OneCycleLR'') ex_sched_args"
  have a: "hypers_lr (ex_task ex_trainer) = Some (VFloat (1 / 2))" by (simp add: ex_task_def)
  have b: "sch_name (scheduler ?c) = Some ''OneCycleLR''" by (simp add: ex_conf_def)
  have c: "ex_sched_registry ''OneCycleLR'' = Some ex_one_cycle"
    by (simp add: ex_sched_registry_def)
  have d: "distinct (map fst (sch_init_args (scheduler ?c)))"
    by (simp add: ex_conf_def ex_sched_args_def)
  have e: "map_of (sch_init_args (scheduler ?c)) ''max_lr'' = Some (VFloat (1 / 10))"
    by (simp add: ex_conf_def ex_sched_args_def)
  have f: "scheduler_kwds (VFloat (1 / 2)) (sch_init_args (scheduler ?c)) []
      = [(''max_lr'', VFloat (1 / 2)), (''epochs'', VInt (- 1))]"
    by (simp add: ex_conf_def ex_sched_args_def)
  have g: "interval (scheduler ?c) = ''step''" "monitor (scheduler ?c) = None"
    by (simp_all add: ex_conf_def)
  show ?thesis
    using build_lr_scheduler_max_lr
      [of "ex_task ex_trainer" "VFloat (1 / 2)" ?c "''OneCycleLR''" ex_sched_registry
          ex_one_cycle "VFloat (1 / 10)" None] a b c d e
    by (simp add: f g ex_one_cycle_def)
qed

text \<open>
  The claim as stated fails for a list: the configured list reaches the scheduler, not
  the learning rate of the model.
\<close>

theorem build_lr_scheduler_max_lr_list_counterexample:
  "hypers_lr (ex_task ex_trainer) = Some (VFloat (1 / 2))
   \<and> fst (build_lr_scheduler ex_sched_registry
            (ex_conf (Some ''OneCycleLR'') ex_sched_args_list) None (ex_task ex_trainer))
       = Inr (Some \<lparr>ld_scheduler =
                      Sched ''OneCycleLR'' None
                        [(''max_lr'', VList [VFloat (1 / 10), VFloat (1 / 5)])],
                    ld_interval = ''step'', ld_monitor = None\<rparr>)"
  by (simp add: eval_task_defs)


section \<open>Properties of the loss library\<close>

text \<open>
  C5. For a config with a name and an \<open>init_args\<close> entry whose weight, if any, converts,
  \<open>build_loss\<close> looks the name up in the loss registry first and constructs from the
  class found there; a name the registry lacks is looked up in \<open>torch.nn.modules.loss\<close>
  and constructed from there; a name found in neither fails with the assertion error of
  the source. Where the name is found, the result is what the constructor returns for the
  prepared arguments.
\<close>

theorem build_loss_resolution:
  assumes "name_key config = Some nm"
    and "init_args_key config = Some args0"
    and "convert_weight tensor args0 = Inr args"
  shows "(\<forall>instance. LOSS_REGISTRY nm = Some instance \<longrightarrow>
            build_loss LOSS_REGISTRY torch_losses tensor config =
              instance (case args of Some a \<Rightarrow> a | None \<Rightarrow> []))
       \<and> (\<forall>instance. LOSS_REGISTRY nm = None \<and> torch_losses nm = Some instance \<longrightarrow>
            build_loss LOSS_REGISTRY torch_losses tensor config =
              instance (case args of Some a \<Rightarrow> a | None \<Rightarrow> []))
       \<and> (LOSS_REGISTRY nm = None \<and> torch_losses nm = None \<longrightarrow>
            build_loss LOSS_REGISTRY torch_losses tensor config = Inl AssertionError)"
  using assms
  by (auto simp: build_loss_def resolve_loss_def split: option.splits)

theorem build_loss_resolution_witness:
  "name_key (ex_loss_config ''FocalLoss'') = Some ''FocalLoss''
   \<and> init_args_key (ex_loss_config ''FocalLoss'') = Some (Some [(''reduction'', VStr ''mean'')])
   \<and> convert_weight ex_tensor (Some [(''reduction'', VStr ''mean'')])
        = Inr (Some [(''reduction'', VStr ''mean'')])
   \<and> ex_loss_registry ''FocalLoss'' = Some (ex_loss_ctor ''FocalLoss'')
   \<and> build_loss ex_loss_registry ex_torch_losses ex_tensor (ex_loss_config ''FocalLoss'')
        = Inr (Loss ''FocalLoss'' [(''reduction'', VStr ''mean'')])
   \<and> ex_loss_registry ''CrossEntropyLoss'' = None
   \<and> ex_torch_losses ''CrossEntropyLoss'' = Some (ex_loss_ctor ''CrossEntropyLoss'')
   \<and> build_loss ex_loss_registry ex_torch_losses ex_tensor (ex_loss_config ''CrossEntropyLoss'')
        = Inr (Loss ''CrossEntropyLoss'' [(''reduction'', VStr ''mean'')])
   \<and> ex_loss_registry ''NoSuchLoss'' = None
   \<and> ex_torch_losses ''NoSuchLoss'' = None
   \<and> build_loss ex_loss_registry ex_torch_losses ex_tensor (ex_loss_config ''NoSuchLoss'')
        = Inl AssertionError"
proof -
  have n: "name_key (ex_loss_config x) = Some x"
    and i: "init_args_key (ex_loss_config x) = Some (Some [(''reduction'', VStr ''mean'')])"
    for x by (simp_all add: ex_loss_config_def)
  have w: "convert_weight ex_tensor (Some [(''reduction'', VStr ''mean'')])
        = Inr (Some [(''reduction'', VStr ''mean'')])"
    by (simp add: convert_weight_def)
  have r: "ex_loss_registry ''FocalLoss'' = Some (ex_loss_ctor ''FocalLoss'')"
      "ex_loss_registry ''CrossEntropyLoss'' = None"
      "ex_torch_losses ''CrossEntropyLoss'' = Some (ex_loss_ctor ''CrossEntropyLoss'')"
      "ex_loss_registry ''NoSuchLoss'' = None" "ex_torch_losses ''NoSuchLoss'' = None"
    by (simp_all add: ex_loss_registry_def ex_torch_losses_def)
  show ?thesis
    using build_loss_resolution[OF n i w, of ex_loss_registry "''FocalLoss''" ex_torch_losses]
      build_loss_resolution[OF n i w, of ex_loss_registry "''CrossEntropyLoss''" ex_torch_losses]
      build_loss_resolution[OF n i w, of ex_loss_registry "''NoSuchLoss''" ex_torch_losses]
      n i w r
    by (simp add: ex_loss_ctor_def)
qed

lemma scaled_by_zero:
  "is_finite x \<Longrightarrow> rd 0 = Fin 0 \<Longrightarrow> 0 < c \<Longrightarrow>
   fdiv rd (fmul rd x (Fin 0)) (Fin (real c)) = Fin 0"
  by (cases x) auto

lemma times_one:
  "rd 1 = Fin 1 \<Longrightarrow> representable rd y \<Longrightarrow>
   fmul rd (fsub rd (Fin 1) (Fin 0)) y = y"
  by (cases y) (auto simp: fsub_def)

lemma zero_plus: "representable rd y \<Longrightarrow> fadd rd (Fin 0) y = y"
  by (cases y) auto

lemma smoothing_vector_zero:
  assumes "length xs = length ys"
    and "list_all is_finite xs" and "list_all (representable rd) ys"
    and "rd 0 = Fin 0" and "rd 1 = Fin 1" and "0 < c"
  shows "map2 (fadd rd)
           (map (\<lambda>x. fdiv rd (fmul rd x (Fin 0)) (Fin (real c))) xs)
           (map (\<lambda>x. fmul rd (fsub rd (Fin 1) (Fin 0)) x) ys) = ys"
  using assms
  by (induction xs ys rule: list_induct2) (auto simp: scaled_by_zero times_one zero_plus)

text \<open>
  C9, as amended. Let rounding keep 0 and 1 and the values of the cross-entropy result,
  let there be at least one class, let the plain cross-entropy
  \<open>F.nll_loss(F.log_softmax(input, dim=1), target)\<close> return a value under the given
  reduction, and let the smoothing term (minus the sum of the log-probabilities, reduced
  by the same mode) be finite and of the shape of that value. Then
  \<open>LabelSmoothingCrossEntropy\<close> with \<open>eps = 0\<close> and no weight returns exactly the value of
  the plain cross-entropy.
\<close>

theorem label_smoothing_eps_zero:
  assumes "rnd T 0 = Fin 0" and "rnd T 1 = Fin 1"
    and "0 < ncols input"
    and "cross_entropy T reduction input target = Inr out"
    and "t_all (representable (rnd T)) out"
    and "t_all is_finite (smoothing_term T reduction (log_softmax T (mrows input)))"
    and "same_shape (smoothing_term T reduction (log_softmax T (mrows input))) out"
  shows "label_smoothing_forward T 0 reduction None input target = Inr out"
proof -
  let ?loss = "smoothing_term T reduction (log_softmax T (mrows input))"
  have nll: "nll_loss T (log_softmax T (mrows input)) target None reduction = Inr out"
    using assms(4) by (simp add: cross_entropy_def)
  show ?thesis
  proof (cases ?loss)
    case (Scalar x)
    then obtain y where y: "out = Scalar y" using assms(7) by (cases out) auto
    have "is_finite x" "representable (rnd T) y"
      using assms(5,6) Scalar y by simp_all
    then show ?thesis
      using nll Scalar y assms(1,2,3)
      by (simp add: label_smoothing_forward_def Let_def scaled_by_zero times_one zero_plus)
  next
    case (Vector xs)
    then obtain ys where ys: "out = Vector ys" "length xs = length ys"
      using assms(7) by (cases out) auto
    have "list_all is_finite xs" "list_all (representable (rnd T)) ys"
      using assms(5,6) Vector ys by simp_all
    then show ?thesis
      using nll Vector ys assms(1,2,3)
      by (simp add: label_smoothing_forward_def Let_def smoothing_vector_zero)
  qed
qed

lemmas eval_loss_defs =
  label_smoothing_forward_def cross_entropy_def smoothing_term_def exact_torch_def
  exact_nll_loss_def exact_log_softmax_def exact_sum_def fsub_def Let_def
  ex_logits_def ex_logits_masked_def

theorem label_smoothing_eps_zero_witness:
  "rnd exact_torch 0 = Fin 0 \<and> rnd exact_torch 1 = Fin 1 \<and> 0 < ncols ex_logits
   \<and> cross_entropy exact_torch ''mean'' ex_logits [1] = Inr (Scalar (Fin (ln 2)))
   \<and> t_all (representable (rnd exact_torch)) (Scalar (Fin (ln 2)))
   \<and> smoothing_term exact_torch ''mean'' (log_softmax exact_torch (mrows ex_logits))
       = Scalar (Fin (2 * ln 2))
   \<and> label_smoothing_forward exact_torch 0 ''mean'' None ex_logits [1]
       = Inr (Scalar (Fin (ln 2)))"
proof -
  have a: "rnd exact_torch 0 = Fin 0" "rnd exact_torch 1 = Fin 1" "0 < ncols ex_logits"
    by (simp_all add: exact_torch_def ex_logits_def)
  have b: "cross_entropy exact_torch ''mean'' ex_logits [1] = Inr (Scalar (Fin (ln 2)))"
    by (simp add: eval_loss_defs)
  have c: "t_all (representable (rnd exact_torch)) (Scalar (Fin (ln 2)))"
    by (simp add: exact_torch_def)
  have d: "smoothing_term exact_torch ''mean'' (log_softmax exact_torch (mrows ex_logits))
       = Scalar (Fin (2 * ln 2))"
    by (simp add: eval_loss_defs)
  have e: "t_all is_finite
      (smoothing_term exact_torch ''mean'' (log_softmax exact_torch (mrows ex_logits)))"
    "same_shape
      (smoothing_term exact_torch ''mean'' (log_softmax exact_torch (mrows ex_logits)))
      (Scalar (Fin (ln 2)))"
    by (simp_all add: d)
  show ?thesis
    using label_smoothing_eps_zero[OF a b c e] a b c d by simp
qed

text \<open>
  The claim as stated fails at a logit of minus infinity, as a masked class has: the
  log-probability of that class is minus infinity, the smoothing term is infinite, its
  product with \<open>eps = 0\<close> is NaN, and so is the loss, where the plain cross-entropy is 0.
\<close>

theorem label_smoothing_masked_logit_counterexample:
  "log_softmax exact_torch (mrows ex_logits_masked) = [[Fin 0, MInf]]
   \<and> cross_entropy exact_torch ''mean'' ex_logits_masked [0] = Inr (Scalar (Fin 0))
   \<and> label_smoothing_forward exact_torch 0 ''mean'' None ex_logits_masked [0]
       = Inr (Scalar NaN)"
  by (simp add: eval_loss_defs)


section \<open>Properties of the dataframe helpers\<close>

lemma positions_from_absent: "c \<notin> set cs \<Longrightarrow> positions_from n c cs = []"
  by (induction cs arbitrary: n) auto

lemma positions_from_once:
  "distinct cs \<Longrightarrow> c \<in> set cs \<Longrightarrow> \<exists>i. positions_from n c cs = [i]"
  by (induction cs arbitrary: n) (auto simp: positions_from_absent)

lemma data_reset_index: "data (reset_index df) = data df"
  by (simp add: data_def reset_index_def)

lemma data_loc_mask:
  "map snd (loc_mask (map P (map (\<lambda>r. r ! i) (map snd rs))) rs)
     = filter (\<lambda>r. P (r ! i)) (map snd rs)"
  by (induction rs) auto

text \<open>
  C6. When the column labels of the dataframe are distinct and the split column is among
  them, \<open>get_dataframe_fold\<close> returns a train and a validation frame: validation holds exactly the rows whose split cell equals the fold
  id, train exactly the others; no row is in both, together they are the rows of the
  dataframe as a multiset, and each keeps its rows in their original order.
\<close>

theorem get_dataframe_fold_partition:
  assumes "distinct (columns df)" and "split_column \<in> set (columns df)"
  shows "\<exists>i train valid.
           positions split_column (columns df) = [i]
         \<and> get_dataframe_fold df split_column f = Inr (train, valid)
         \<and> data valid = filter (\<lambda>r. cell_eq_int (r ! i) f) (data df)
         \<and> data train = filter (\<lambda>r. \<not> cell_eq_int (r ! i) f) (data df)
         \<and> set (data train) \<inter> set (data valid) = {}
         \<and> mset (data train) + mset (data valid) = mset (data df)
         \<and> subseq (data train) (data df) \<and> subseq (data valid) (data df)"
proof -
  from positions_from_once[OF assms, of 0] obtain i
    where i: "positions split_column (columns df) = [i]"
    by (auto simp: positions_def)
  let ?P = "\<lambda>r. cell_eq_int (r ! i) f"
  let ?train = "reset_index (df\<lparr>rows := loc_mask (map (\<lambda>x. \<not> cell_eq_int x f)
                    (map (\<lambda>r. r ! i) (data df))) (rows df)\<rparr>)"
  let ?valid = "reset_index (df\<lparr>rows := loc_mask (map (\<lambda>x. cell_eq_int x f)
                    (map (\<lambda>r. r ! i) (data df))) (rows df)\<rparr>)"
  have g: "get_dataframe_fold df split_column f = Inr (?train, ?valid)"
    using i by (simp add: get_dataframe_fold_def get_column_def Let_def)
  have "data ?valid = map snd (loc_mask (map (\<lambda>x. cell_eq_int x f)
      (map (\<lambda>r. r ! i) (map snd (rows df)))) (rows df))"
    unfolding data_reset_index by (simp add: data_def)
  also have "\<dots> = filter ?P (map snd (rows df))"
    by (rule data_loc_mask)
  finally have v: "data ?valid = filter ?P (data df)"
    by (simp add: data_def)
  have "data ?train = map snd (loc_mask (map (\<lambda>x. \<not> cell_eq_int x f)
      (map (\<lambda>r. r ! i) (map snd (rows df)))) (rows df))"
    unfolding data_reset_index by (simp add: data_def)
  also have "\<dots> = filter (\<lambda>r. \<not> ?P r) (map snd (rows df))"
    by (rule data_loc_mask)
  finally have t: "data ?train = filter (\<lambda>r. \<not> ?P r) (data df)"
    by (simp add: data_def)
  have d: "set (data ?train) \<inter> set (data ?valid) = {}"
    unfolding v t by auto
  have m: "mset (data ?train) + mset (data ?valid) = mset (data df)"
    unfolding v t by (induction "data df") auto
  have s: "subseq (data ?train) (data df)" "subseq (data ?valid) (data df)"
    unfolding v t by simp_all
  show ?thesis using i g v t d m s by blast
qed

theorem get_dataframe_fold_partition_witness:
  "distinct (columns ex_df) \<and> ''kfold'' \<in> set (columns ex_df)
   \<and> get_dataframe_fold ex_df ''kfold'' 0 =
       Inr (\<lparr>columns = [''image_id'', ''target'', ''kfold''],
             rows = [(0, [CStr ''b.png'', CStr ''cat'', CInt 1]),
                     (1, [CStr ''c.png'', CStr ''dog'', CInt 1])]\<rparr>,
            \<lparr>columns = [''image_id'', ''target'', ''kfold''],
             rows = [(0, [CStr ''a.png'', CStr ''dog'', CInt 0]),
                     (1, [CStr ''d.png'', CStr ''cat'', CInt 0])]\<rparr>)"
  using get_dataframe_fold_partition[of ex_df "''kfold''" 0]
  by (simp add: get_dataframe_fold_def get_column_def positions_def data_def ex_df_def
      reset_index_def upt_rec)


lemma unique_from_props:
  "distinct seen \<Longrightarrow>
   distinct (unique_from seen xs) \<and> set (unique_from seen xs) = set seen \<union> set xs"
  by (induction xs arbitrary: seen) auto

lemma unique_props: "distinct (unique xs) \<and> set (unique xs) = set xs"
  using unique_from_props[of "[]" xs] by (simp add: unique_def)

lemma dict_set_append: "k \<notin> fst ` set d \<Longrightarrow> dict_set d k v = d @ [(k, v)]"
  by (induction d k v rule: dict_set.induct) auto

lemma enumerate_labels_strings:
  "distinct ss \<Longrightarrow> set ss \<inter> fst ` set acc = {} \<Longrightarrow>
   enumerate_labels n (map CStr ss) acc = acc @ zip ss [n..<n + length ss]"
proof (induction ss arbitrary: n acc)
  case Nil
  then show ?case by simp
next
  case (Cons a ss)
  have a: "a \<notin> fst ` set acc" using Cons.prems(2) by auto
  have d: "distinct ss" using Cons.prems(1) by simp
  have i: "set ss \<inter> fst ` set (acc @ [(a, n)]) = {}"
    using Cons.prems by auto
  have u: "[n..<n + length (a # ss)] = n # [Suc n..<Suc n + length ss]"
    by (simp add: upt_rec)
  show ?case
    using Cons.IH[OF d i, of "Suc n"] u
    by (simp add: dict_set_append[OF a])
qed

lemma sort_distinct: "distinct (ys :: 'a::linorder list) \<Longrightarrow> sort ys = sorted_list_of_set (set ys)"
  by (simp add: sorted_list_of_set_sort_remdups distinct_remdups_id)

lemma str_val_inj: "list_all is_str cs \<Longrightarrow> inj_on str_val (set cs)"
proof (rule inj_onI)
  fix x y assume a: "list_all is_str cs" "x \<in> set cs" "y \<in> set cs" "str_val x = str_val y"
  then have "is_str x" "is_str y" by (auto simp: list_all_iff)
  with a(4) show "x = y" by (cases x; cases y) auto
qed

lemma labeling_of_cells:
  assumes "list_all is_str cells"
  shows "(case py_sorted (unique cells) of Inl e \<Rightarrow> Inl e
          | Inr classes \<Rightarrow> Inr (enumerate_labels 0 classes []))
         = Inr (spec_label_index (str_val ` set cells))"
proof -
  let ?u = "unique cells"
  have us: "list_all is_str ?u"
    using assms unique_props[of cells] by (simp add: list_all_iff)
  have d: "distinct (map str_val ?u)"
    using unique_props[of cells] str_val_inj[OF us] by (simp add: distinct_map)
  have s: "set (map str_val ?u) = str_val ` set cells"
    using unique_props[of cells] by simp
  let ?L = "sort (map str_val ?u)"
  have L: "?L = sorted_list_of_set (str_val ` set cells)"
    using sort_distinct[OF d] s by simp
  have dL: "distinct ?L" using d by simp
  have len: "length ?L = card (str_val ` set cells)"
    using distinct_card[OF dL] s by simp
  have "py_sorted ?u = Inr (map CStr ?L)"
    using us by (simp add: py_sorted_def)
  moreover have "enumerate_labels 0 (map CStr ?L) [] = zip ?L [0..<length ?L]"
    using enumerate_labels_strings[OF dL, of "[]" 0] by simp
  ultimately show ?thesis
    using L len by (simp add: spec_label_index_def)
qed

lemma spec_label_index_bij:
  assumes "finite S"
  shows "bij_betw (\<lambda>l. the (map_of (spec_label_index S) l)) S {0..<card S}"
proof -
  let ?L = "sorted_list_of_set S"
  have d: "distinct ?L" and s: "set ?L = S" and n: "length ?L = card S"
    using assms by simp_all
  have look: "map_of (spec_label_index S) (?L ! i) = Some i" if "i < card S" for i
    using map_of_zip_nth[of ?L "[0..<card S]" i] d n that
    by (simp add: spec_label_index_def)
  show ?thesis
  proof (rule bij_betw_byWitness[where f' = "\<lambda>i. ?L ! i"])
    show "\<forall>a\<in>S. ?L ! the (map_of (spec_label_index S) a) = a"
    proof
      fix a assume "a \<in> S"
      then obtain i where "i < length ?L" "?L ! i = a"
        using s by (metis in_set_conv_nth)
      then show "?L ! the (map_of (spec_label_index S) a) = a"
        using look[of i] n by auto
    qed
    show "\<forall>i\<in>{0..<card S}. the (map_of (spec_label_index S) (?L ! i)) = i"
      using look by simp
    show "(\<lambda>l. the (map_of (spec_label_index S) l)) ` S \<subseteq> {0..<card S}"
    proof
      fix x assume "x \<in> (\<lambda>l. the (map_of (spec_label_index S) l)) ` S"
      then obtain a where a: "a \<in> S" "x = the (map_of (spec_label_index S) a)" by blast
      then obtain i where "i < length ?L" "?L ! i = a"
        using s by (metis in_set_conv_nth)
      then show "x \<in> {0..<card S}" using look[of i] n a by auto
    qed
    show "(\<lambda>i. ?L ! i) ` {0..<card S} \<subseteq> S"
      using s n by (metis atLeastLessThan_iff image_subsetI nth_mem)
  qed
qed

text \<open>
  C7. On a label column of strings, \<open>get_dataset_labeling\<close> returns the label index of
  the spec: the sorted unique label strings numbered consecutively from 0. The index is
  a bijection from the labels onto \<open>[0, num_classes)\<close>, and any dataframe whose label
  column holds the same set of labels, in whatever row order, gets the identical index.
\<close>

theorem get_dataset_labeling_sorted_bijection:
  assumes "get_column df c = Inr (Series cells)" and "list_all is_str cells"
  shows "get_dataset_labeling df c = Inr (spec_label_index (str_val ` set cells))
       \<and> bij_betw (\<lambda>l. the (map_of (spec_label_index (str_val ` set cells)) l))
            (str_val ` set cells) {0..<card (str_val ` set cells)}
       \<and> (\<forall>df' c' cells'. get_column df' c' = Inr (Series cells') \<and> set cells' = set cells
            \<longrightarrow> get_dataset_labeling df' c' = get_dataset_labeling df c)"
proof -
  have one: "get_dataset_labeling d k = Inr (spec_label_index (str_val ` set cs))"
    if "get_column d k = Inr (Series cs)" "list_all is_str cs" for d k cs
    using that labeling_of_cells[OF that(2)] by (simp add: get_dataset_labeling_def)
  have same: "list_all is_str cs" if "set cs = set cells" for cs
    using assms(2) that by (simp add: list_all_iff)
  show ?thesis
    using one[OF assms] spec_label_index_bij[of "str_val ` set cells"] one same
    by auto
qed

theorem get_dataset_labeling_sorted_bijection_witness:
  "get_column ex_df ''target''
       = Inr (Series [CStr ''dog'', CStr ''cat'', CStr ''dog'', CStr ''cat''])
   \<and> list_all is_str [CStr ''dog'', CStr ''cat'', CStr ''dog'', CStr ''cat'']
   \<and> get_dataset_labeling ex_df ''target'' = Inr [(''cat'', 0), (''dog'', 1)]
   \<and> get_column ex_df_rev ''target''
       = Inr (Series [CStr ''cat'', CStr ''dog'', CStr ''cat'', CStr ''dog''])
   \<and> set [CStr ''cat'', CStr ''dog'', CStr ''cat'', CStr ''dog'']
        = set [CStr ''dog'', CStr ''cat'', CStr ''dog'', CStr ''cat'']
   \<and> get_dataset_labeling ex_df_rev ''target'' = get_dataset_labeling ex_df ''target''"
proof -
  have a: "get_column ex_df ''target''
      = Inr (Series [CStr ''dog'', CStr ''cat'', CStr ''dog'', CStr ''cat''])"
    by (simp add: get_column_def positions_def data_def ex_df_def)
  have b: "list_all is_str [CStr ''dog'', CStr ''cat'', CStr ''dog'', CStr ''cat'']"
    by simp
  have c: "get_column ex_df_rev ''target''
      = Inr (Series [CStr ''cat'', CStr ''dog'', CStr ''cat'', CStr ''dog''])"
    by (simp add: get_column_def positions_def data_def ex_df_rev_def ex_df_def)
  have d: "set [CStr ''cat'', CStr ''dog'', CStr ''cat'', CStr ''dog'']
        = set [CStr ''dog'', CStr ''cat'', CStr ''dog'', CStr ''cat'']"
    by auto
  have e: "get_dataset_labeling ex_df ''target'' = Inr [(''cat'', 0), (''dog'', 1)]"
    by (simp add: get_dataset_labeling_def get_column_def positions_def data_def ex_df_def
        unique_def
        py_sorted_def)
  from get_dataset_labeling_sorted_bijection[OF a b] c d
  have "get_dataset_labeling ex_df_rev ''target'' = get_dataset_labeling ex_df ''target''"
    by blast
  then show ?thesis using a b c d e by simp
qed

lemma apply_labels_total:
  "list_all (\<lambda>x. map_of tag (str_cell x) \<noteq> None) cells \<Longrightarrow>
   apply_labels tag cells = Inr (map (\<lambda>x. CInt (int (the (map_of tag (str_cell x))))) cells)"
  by (induction cells) auto

lemma spec_label_index_dom:
  assumes "finite S" and "l \<in> S"
  shows "map_of (spec_label_index S) l \<noteq> None"
proof -
  have "length (sorted_list_of_set S) = length [0..<card S]"
    using assms(1) by simp
  then have "(map_of (spec_label_index S) l \<noteq> None) = (l \<in> set (sorted_list_of_set S))"
    unfolding spec_label_index_def using map_of_zip_is_Some[of "sorted_list_of_set S" "[0..<card S]" l]
    by auto
  then show ?thesis using assms by simp
qed

lemma str_cell_str_val: "is_str x \<Longrightarrow> str_cell x = str_val x"
  by (cases x) auto

lemma positions_from_bound:
  "i \<in> set (positions_from n c cs) \<Longrightarrow> n \<le> i \<and> i < n + length cs"
  by (induction cs arbitrary: n) (fastforce split: if_splits)+

lemma column_after_set_column:
  "length vs = length rs \<Longrightarrow> list_all (\<lambda>r. i < length (snd r)) rs \<Longrightarrow>
   map (\<lambda>r. r ! i) (map snd (map2 (\<lambda>(ix, r) v. (ix, r[i := v])) rs vs)) = vs"
  by (induction vs rs rule: list_induct2) auto

text \<open>
  C8, as amended. On a label column of strings, \<open>dataframe_labels_2_int\<close> works on a
  copy: it returns a reference to a new dataframe object which is the given dataframe with
  the label column rewritten, each label string replaced by its integer id from the label
  index (so that, the frame being rectangular, its label column is the Series of these
  ids), and the dataframe object the caller passed is left as it was.
\<close>

theorem dataframe_labels_2_int_copies:
  assumes "objs s r = Some df" and "r < next_ref s"
    and "get_column df c = Inr (Series cells)" and "list_all is_str cells"
  shows "\<exists>tag i s'.
           get_dataset_labeling df c = Inr tag
         \<and> positions c (columns df) = [i]
         \<and> dataframe_labels_2_int r c flag s =
             (Inr (next_ref s, if flag then Some tag else None), s')
         \<and> objs s' r = Some df
         \<and> objs s' (next_ref s) =
             Some (set_column df i
                     (map (\<lambda>x. CInt (int (the (map_of tag (str_val x))))) cells))
         \<and> (list_all (\<lambda>r. length r = length (columns df)) (data df) \<longrightarrow>
              get_column
                (set_column df i
                   (map (\<lambda>x. CInt (int (the (map_of tag (str_val x))))) cells)) c
              = Inr (Series (map (\<lambda>x. CInt (int (the (map_of tag (str_val x))))) cells)))"
proof -
  let ?S = "str_val ` set cells"
  let ?tag = "spec_label_index ?S"
  have tag: "get_dataset_labeling df c = Inr ?tag"
    using assms(3) labeling_of_cells[OF assms(4)] by (simp add: get_dataset_labeling_def)
  obtain i where i: "positions c (columns df) = [i]"
    using assms(3) by (auto simp: get_column_def split: list.splits)
  have "list_all (\<lambda>x. map_of ?tag (str_cell x) \<noteq> None) cells"
    unfolding list_all_iff
  proof
    fix x assume x: "x \<in> set cells"
    then have "is_str x" using assms(4) by (simp add: list_all_iff)
    then have "str_cell x = str_val x" by (rule str_cell_str_val)
    moreover have "str_val x \<in> ?S" using x by simp
    ultimately show "map_of ?tag (str_cell x) \<noteq> None"
      using spec_label_index_dom[of ?S "str_val x"] by simp
  qed
  then have "apply_labels ?tag cells =
      Inr (map (\<lambda>x. CInt (int (the (map_of ?tag (str_cell x))))) cells)"
    by (rule apply_labels_total)
  moreover have "map (\<lambda>x. CInt (int (the (map_of ?tag (str_cell x))))) cells
      = map (\<lambda>x. CInt (int (the (map_of ?tag (str_val x))))) cells"
    using assms(4) by (auto simp: list_all_iff str_cell_str_val)
  ultimately have ap: "apply_labels ?tag cells =
      Inr (map (\<lambda>x. CInt (int (the (map_of ?tag (str_val x))))) cells)"
    by simp
  have ne: "next_ref s \<noteq> r" using assms(2) by simp
  let ?vs = "map (\<lambda>x. CInt (int (the (map_of ?tag (str_val x))))) cells"
  have cells: "cells = map (\<lambda>r. r ! i) (data df)"
    using assms(3) i by (simp add: get_column_def)
  have col: "get_column (set_column df i ?vs) c = Inr (Series ?vs)"
    if rect: "list_all (\<lambda>r. length r = length (columns df)) (data df)"
  proof -
    have "i \<in> set (positions_from 0 c (columns df))"
      using i by (simp add: positions_def)
    then have "i < length (columns df)"
      using positions_from_bound[of i 0 c "columns df"] by simp
    then have "list_all (\<lambda>r. i < length (snd r)) (rows df)"
      using rect by (simp add: list_all_iff data_def)
    moreover have "length ?vs = length (rows df)"
      using cells by (simp add: data_def)
    ultimately have "map (\<lambda>r. r ! i)
        (map snd (map2 (\<lambda>(ix, r) v. (ix, r[i := v])) (rows df) ?vs)) = ?vs"
      by (rule column_after_set_column[rotated])
    then show ?thesis
      using i by (simp add: get_column_def set_column_def data_def)
  qed
  have main: "dataframe_labels_2_int r c flag s =
      (Inr (next_ref s, if flag then Some ?tag else None),
       s\<lparr>next_ref := Suc (next_ref s),
         objs := (objs s)(next_ref s \<mapsto> set_column df i ?vs)\<rparr>)"
    using assms(1,3) tag i ap
    by (simp add: dataframe_labels_2_int_def df_copy_def)
  show ?thesis
    using assms(1) tag i main ne col by auto
qed

theorem dataframe_labels_2_int_copies_witness:
  "objs ex_store 0 = Some ex_df \<and> 0 < next_ref ex_store
   \<and> get_column ex_df ''target''
       = Inr (Series [CStr ''dog'', CStr ''cat'', CStr ''dog'', CStr ''cat''])
   \<and> list_all is_str [CStr ''dog'', CStr ''cat'', CStr ''dog'', CStr ''cat'']
   \<and> fst (dataframe_labels_2_int 0 ''target'' True ex_store)
        = Inr (1, Some [(''cat'', 0), (''dog'', 1)])
   \<and> objs (snd (dataframe_labels_2_int 0 ''target'' True ex_store)) 0 = Some ex_df
   \<and> list_all (\<lambda>r. length r = length (columns ex_df)) (data ex_df)
   \<and> objs (snd (dataframe_labels_2_int 0 ''target'' True ex_store)) 1 =
       Some \<lparr>columns = [''image_id'', ''target'', ''kfold''],
             rows = [(0, [CStr ''a.png'', CInt 1, CInt 0]),
                     (1, [CStr ''b.png'', CInt 0, CInt 1]),
                     (2, [CStr ''c.png'', CInt 1, CInt 1]),
                     (3, [CStr ''d.png'', CInt 0, CInt 0])]\<rparr>
   \<and> get_column
         \<lparr>columns = [''image_id'', ''target'', ''kfold''],
          rows = [(0, [CStr ''a.png'', CInt 1, CInt 0]),
                  (1, [CStr ''b.png'', CInt 0, CInt 1]),
                  (2, [CStr ''c.png'', CInt 1, CInt 1]),
                  (3, [CStr ''d.png'', CInt 0, CInt 0])]\<rparr> ''target''
       = Inr (Series [CInt 1, CInt 0, CInt 1, CInt 0])"
proof -
  have a: "objs ex_store 0 = Some ex_df" and b: "0 < next_ref ex_store"
    by (simp_all add: ex_store_def)
  have c: "get_column ex_df ''target''
      = Inr (Series [CStr ''dog'', CStr ''cat'', CStr ''dog'', CStr ''cat''])"
    by (simp add: get_column_def positions_def data_def ex_df_def)
  have d: "list_all is_str [CStr ''dog'', CStr ''cat'', CStr ''dog'', CStr ''cat'']"
    by simp
  have e: "get_dataset_labeling ex_df ''target'' = Inr [(''cat'', 0), (''dog'', 1)]"
    by (simp add: get_dataset_labeling_def get_column_def positions_def data_def ex_df_def
        unique_def
        py_sorted_def)
  have f: "next_ref ex_store = 1" by (simp add: ex_store_def)
  from dataframe_labels_2_int_copies[OF a b c d, of True] e f
  have "fst (dataframe_labels_2_int 0 ''target'' True ex_store)
        = Inr (1, Some [(''cat'', 0), (''dog'', 1)])
      \<and> objs (snd (dataframe_labels_2_int 0 ''target'' True ex_store)) 0 = Some ex_df"
    by auto
  moreover have "list_all (\<lambda>r. length r = length (columns ex_df)) (data ex_df)"
    by (simp add: ex_df_def data_def)
  moreover have "objs (snd (dataframe_labels_2_int 0 ''target'' True ex_store)) 1 =
       Some \<lparr>columns = [''image_id'', ''target'', ''kfold''],
             rows = [(0, [CStr ''a.png'', CInt 1, CInt 0]),
                     (1, [CStr ''b.png'', CInt 0, CInt 1]),
                     (2, [CStr ''c.png'', CInt 1, CInt 1]),
                     (3, [CStr ''d.png'', CInt 0, CInt 0])]\<rparr>"
    by (simp add: dataframe_labels_2_int_def df_copy_def ex_store_def
        get_dataset_labeling_def get_column_def positions_def data_def ex_df_def unique_def
        py_sorted_def set_column_def)
  moreover have "get_column
         \<lparr>columns = [''image_id'', ''target'', ''kfold''],
          rows = [(0, [CStr ''a.png'', CInt 1, CInt 0]),
                  (1, [CStr ''b.png'', CInt 0, CInt 1]),
                  (2, [CStr ''c.png'', CInt 1, CInt 1]),
                  (3, [CStr ''d.png'', CInt 0, CInt 0])]\<rparr> ''target''
       = Inr (Series [CInt 1, CInt 0, CInt 1, CInt 0])"
    by (simp add: get_column_def positions_def data_def)
  ultimately show ?thesis using a b c d by simp
qed

text \<open>
  The claim as stated fails: after the call the caller's dataframe still holds its label
  strings, and the integers are in the new object only.
\<close>

theorem dataframe_labels_2_int_in_place_counterexample:
  "objs ex_store 0 = Some ex_df
   \<and> fst (dataframe_labels_2_int 0 ''target'' False ex_store) = Inr (1, None)
   \<and> objs (snd (dataframe_labels_2_int 0 ''target'' False ex_store)) 0 = Some ex_df
   \<and> get_column ex_df ''target''
       = Inr (Series [CStr ''dog'', CStr ''cat'', CStr ''dog'', CStr ''cat''])
   \<and> objs (snd (dataframe_labels_2_int 0 ''target'' False ex_store)) 1 =
       Some \<lparr>columns = [''image_id'', ''target'', ''kfold''],
             rows = [(0, [CStr ''a.png'', CInt 1, CInt 0]),
                     (1, [CStr ''b.png'', CInt 0, CInt 1]),
                     (2, [CStr ''c.png'', CInt 1, CInt 1]),
                     (3, [CStr ''d.png'', CInt 0, CInt 0])]\<rparr>"
  by (simp add: dataframe_labels_2_int_def df_copy_def ex_store_def get_dataset_labeling_def
      get_column_def positions_def data_def ex_df_def unique_def py_sorted_def
      set_column_def)


section \<open>Properties of the logger\<close>

lemma map_of_filter_key: "map_of (filter (\<lambda>e. fst e \<noteq> k) xs) k = None"
  by (induction xs) auto

lemma map_of_tl_None: "map_of xs k = None \<Longrightarrow> map_of (tl xs) k = None"
  by (cases xs) (auto split: if_splits)

lemma setup_logger_hit:
  "map_of (cache s) (positional c, kwargs c) = Some r \<Longrightarrow>
   fst (setup_logger c s) = Inr r \<and> loggers (snd (setup_logger c s)) = loggers s
   \<and> map_of (cache (snd (setup_logger c s))) (positional c, kwargs c) = Some r"
  by (simp add: setup_logger_def Let_def map_of_filter_key map_add_def)

lemma setup_logger_miss:
  "map_of (cache s) (positional c, kwargs c) = None \<Longrightarrow> bind_args c = Inr b \<Longrightarrow>
   fst (setup_logger c s) = Inr (logger_ref (name b))
   \<and> loggers (snd (setup_logger c s)) = snd (setup_logger_body b (loggers s))
   \<and> map_of (cache (snd (setup_logger c s))) (positional c, kwargs c)
       = Some (logger_ref (name b))"
  by (simp add: setup_logger_def Let_def setup_logger_body_def map_add_def map_of_tl_None)

lemma setup_logger_body_handlers:
  "distributed_rank b \<noteq> 0 \<Longrightarrow>
   handlers_of \<lparr>loggers = snd (setup_logger_body b ls), cache = ch\<rparr> n
     = handlers_of \<lparr>loggers = ls, cache = ch'\<rparr> n"
  by (simp add: setup_logger_body_def handlers_of_def get_logger_def Let_def
      split: option.split)

text \<open>
  What the cache does give. After a successful call its entry is in the cache; a call
  whose entry is in the cache returns the cached logger and changes no logger; a call
  that runs the body returns the logger of the name it was given; and a call bound to a
  nonzero rank attaches no handler to any logger.
\<close>

lemma setup_logger_cached:
  "(\<forall>r s1. setup_logger c s = (Inr r, s1) \<longrightarrow>
      map_of (cache s1) (positional c, kwargs c) = Some r
      \<and> fst (setup_logger c s1) = Inr r \<and> loggers (snd (setup_logger c s1)) = loggers s1)
   \<and> (\<forall>r. map_of (cache s) (positional c, kwargs c) = Some r \<longrightarrow>
        fst (setup_logger c s) = Inr r \<and> loggers (snd (setup_logger c s)) = loggers s)
   \<and> (\<forall>b. bind_args c = Inr b \<and> map_of (cache s) (positional c, kwargs c) = None \<longrightarrow>
        fst (setup_logger c s) = Inr (logger_ref (name b)))
   \<and> (\<forall>b. bind_args c = Inr b \<and> distributed_rank b \<noteq> 0 \<longrightarrow>
        (\<forall>n. handlers_of (snd (setup_logger c s)) n = handlers_of s n))"
proof (intro conjI allI impI)
  fix r s1 assume a: "setup_logger c s = (Inr r, s1)"
  show k: "map_of (cache s1) (positional c, kwargs c) = Some r"
  proof (cases "map_of (cache s) (positional c, kwargs c)")
    case None
    then obtain b where b: "bind_args c = Inr b"
      using a by (cases "bind_args c") (auto simp: setup_logger_def Let_def)
    from setup_logger_miss[OF None b] a show ?thesis by simp
  next
    case (Some r')
    from setup_logger_hit[OF Some] a show ?thesis by simp
  qed
  from setup_logger_hit[OF k]
  show "fst (setup_logger c s1) = Inr r" "loggers (snd (setup_logger c s1)) = loggers s1"
    by simp_all
next
  fix r assume h: "map_of (cache s) (positional c, kwargs c) = Some r"
  from setup_logger_hit[OF h]
  show "fst (setup_logger c s) = Inr r" "loggers (snd (setup_logger c s)) = loggers s"
    by simp_all
next
  fix b assume "bind_args c = Inr b \<and> map_of (cache s) (positional c, kwargs c) = None"
  then show "fst (setup_logger c s) = Inr (logger_ref (name b))"
    using setup_logger_miss[of s c b] by simp
next
  fix b n assume b: "bind_args c = Inr b \<and> distributed_rank b \<noteq> 0"
  show "handlers_of (snd (setup_logger c s)) n = handlers_of s n"
  proof (cases "map_of (cache s) (positional c, kwargs c)")
    case None
    from setup_logger_miss[OF None] b
    have "loggers (snd (setup_logger c s)) = snd (setup_logger_body b (loggers s))" by simp
    then show ?thesis
      using b setup_logger_body_handlers[of b "loggers s" "[]" n "[]"]
      by (simp add: handlers_of_def)
  next
    case (Some r')
    from setup_logger_hit[OF Some] show ?thesis by (simp add: handlers_of_def)
  qed
qed

lemmas eval_logger_defs =
  setup_logger_def setup_logger_body_def bind_args_def get_logger_def logger_ref_def
  handlers_of_def Let_def ex_logging_def ex_call_default_def ex_call_rank0_def
  ex_call_rank1_def

text \<open>
  C10. \<open>setup_logger()\<close> and \<open>setup_logger(0)\<close> are bound to the same rank, colour,
  name and level, and both return the logger \<open>gale\<close>; yet they are different cache keys,
  the body runs for each, and the logger ends with two handlers.
\<close>

theorem setup_logger_two_handlers:
  "bind_args ex_call_default
     = Inr \<lparr>distributed_rank = 0, color = True, name = ''gale'', lvl = 10\<rparr>
   \<and> bind_args ex_call_rank0
     = Inr \<lparr>distributed_rank = 0, color = True, name = ''gale'', lvl = 10\<rparr>
   \<and> fst (setup_logger ex_call_default ex_logging) = Inr ''gale''
   \<and> fst (setup_logger ex_call_rank0 (snd (setup_logger ex_call_default ex_logging)))
       = Inr ''gale''
   \<and> handlers_of (snd (setup_logger ex_call_rank0
        (snd (setup_logger ex_call_default ex_logging)))) ''gale''
       = [\<lparr>h_level = 10, h_colorful = True\<rparr>, \<lparr>h_level = 10, h_colorful = True\<rparr>]"
  by (simp add: eval_logger_defs)


end
